theory Spec2Isabelle
  imports Main
begin

section \<open>Values the build task works with\<close>

text \<open>
  Instants of the wall clock are integers, counted in nanoseconds from the Unix epoch
  (the resolution of Go's \<open>time.Time\<close>); \<open>t.Before(u)\<close> is the strict order on instants.
  \<open>zeroTime\<close> is the zero value \<open>time.Time{}\<close>, the first instant of the year 1.
\<close>

type_synonym time = int

definition Before :: "time \<Rightarrow> time \<Rightarrow> bool" where
  "Before t u = (t < u)"

definition second :: int where
  "second = 1000000000"


text \<open>
  Go errors are values. \<open>docker.ErrNoSuchImage\<close> and \<open>filepath.SkipDir\<close> are the two
  sentinel errors the code or the directory walk compares against; every other error is
  an \<open>Err\<close> carrying its message. A \<open>nil\<close> error is \<open>None\<close>.
\<close>

datatype error = ErrNoSuchImage | SkipDir | ErrWriteTooLong | ErrWriteAfterClose | Err string

fun errorString :: "error \<Rightarrow> string" where
  "errorString ErrNoSuchImage = ''no such image''"
| "errorString SkipDir = ''skip this directory''"
| "errorString ErrWriteTooLong = ''archive/tar: write too long''"
| "errorString ErrWriteAfterClose = ''archive/tar: write after close''"
| "errorString (Err m) = m"

text \<open>A call either returns or panics (a nil dereference brings the program down).\<close>

datatype 'a outcome = Panic | Return 'a

text \<open>
  \<open>os.FileInfo\<close>, by the three methods the code calls on it. A nil \<open>os.FileInfo\<close> is
  \<open>None\<close> of \<open>FileInfo option\<close>.
\<close>

record FileInfo =
  IsDir :: bool
  FileMode :: nat
  FileModTime :: time

text \<open>\<open>docker.Image\<close>, by the two fields the code reads.\<close>

record Image =
  ID :: string
  Created :: time

text \<open>
  \<open>imageModifiedRecord\<close>: the stored image identifier, and the \<open>os.FileInfo\<close> of the
  record file, which a literal \<open>imageModifiedRecord{ImageID: id}\<close> leaves nil.
\<close>

record imageModifiedRecord =
  ImageID :: string
  Info :: "FileInfo option"

text \<open>The task configuration (\<open>t.config\<close>) and the task.\<close>

record ImageConfig =
  Context :: string
  Dockerfile :: string
  Steps :: string
  Args :: "(string \<times> string) list"
  PullBaseImageOnBuild :: bool

record Task =
  config :: ImageConfig

text \<open>
  The execution context, by what the code reads from it: the quiet flag and the image
  name that \<open>GetImageName(ctx, t.config)\<close> resolves to.
\<close>

record ExecuteContext =
  Quiet :: bool
  ImageName :: string

section \<open>The archive writer\<close>

text \<open>
  \<open>tar.Header\<close>, by the fields the code sets. \<open>Size\<close> and \<open>Mode\<close> are \<open>int64\<close>; the
  values converted into them (\<open>len\<close> of a byte slice, an \<open>os.FileMode\<close> of 32 bits) are
  non-negative and below \<open>2 ^ 63\<close>, so the conversions keep them.
\<close>

record Header =
  Name :: string
  Size :: int
  Mode :: int
  ModTime :: time
  AccessTime :: time
  ChangeTime :: time

text \<open>
  \<open>tar.Writer\<close> over a \<open>bytes.Buffer\<close>, as the sequence of entries it has accepted:
  each the header handed to \<open>WriteHeader\<close> and the bytes written under it. \<open>nb\<close> is
  the number of bytes the current entry still expects. The layout of an entry in
  512-byte blocks is the library's and is not modelled; what the archive keeps of a
  header is \<open>archived\<close> below; writes into the buffer do not fail.
\<close>

record TarWriter =
  entries :: "(Header \<times> string) list"
  nb :: nat
  closed :: bool

definition NewWriter :: TarWriter where
  "NewWriter = \<lparr>entries = [], nb = 0, closed = False\<rparr>"

text \<open>
  \<open>WriteHeader\<close> refuses a closed writer, and refuses to start an entry while the
  previous one is short of its declared size (the library's message also gives the
  number of bytes missed).
\<close>

definition WriteHeader :: "Header \<Rightarrow> TarWriter \<Rightarrow> error option \<times> TarWriter" where
  "WriteHeader hdr tr =
     (if closed tr then (Some ErrWriteAfterClose, tr)
      else if 0 < nb tr then (Some (Err ''archive/tar: missed writing bytes''), tr)
      else (None, tr\<lparr>entries := entries tr @ [(hdr, [])], nb := nat (Size hdr)\<rparr>))"

fun append_data :: "(Header \<times> string) list \<Rightarrow> string \<Rightarrow> (Header \<times> string) list" where
  "append_data [] b = []"
| "append_data [(h, d)] b = [(h, d @ b)]"
| "append_data (e # es) b = e # append_data es b"

text \<open>
  \<open>Write\<close> adds bytes to the current entry, up to the size its header declared; the
  excess is dropped and reported as \<open>ErrWriteTooLong\<close>.
\<close>

definition Write :: "string \<Rightarrow> TarWriter \<Rightarrow> error option \<times> TarWriter" where
  "Write b tr =
     (if closed tr then (Some ErrWriteAfterClose, tr)
      else if nb tr < length b
        then (Some ErrWriteTooLong, tr\<lparr>entries := append_data (entries tr) (take (nb tr) b), nb := 0\<rparr>)
      else (None, tr\<lparr>entries := append_data (entries tr) b, nb := nb tr - length b\<rparr>))"

definition Close :: "TarWriter \<Rightarrow> TarWriter" where
  "Close tr = tr\<lparr>closed := True\<rparr>"




section \<open>The build engine's options and the observable events\<close>

text \<open>
  \<open>docker.BuildImageOptions\<close>. The output stream and the authentication configs are
  opaque to the code and left out. A field the code does not set has Go's zero value.
\<close>

record BuildArg =
  ArgName :: string
  ArgValue :: string

record BuildImageOptions =
  BuildName :: string
  BuildArgs :: "BuildArg list"
  Pull :: bool
  RmTmpContainer :: bool
  RawJSONStream :: bool
  SuppressOutput :: bool
  BuildDockerfile :: string
  ContextDir :: string
  InputStream :: "TarWriter option"

text \<open>
  What a run does to the outside, in order: the log lines of \<open>t.logger()\<close> and the
  calls to the collaborators.
\<close>

datatype event =
    LogInfo string
  | LogDebug string
  | LogWarn string
  | CallGetImage
  | CallLastModified string
  | CallGetImageRecord
  | CallUpdateImageRecord string
  | CallBuildImage BuildImageOptions

section \<open>The file system\<close>

text \<open>
  What \<open>filepath.Walk\<close> finds at a path: either \<open>Lstat\<close> fails there (\<open>Missing\<close>), or it
  gives a \<open>FileInfo\<close>; for a directory, reading the names either fails with the given
  error or gives the children, in the order \<open>readDirNames\<close> returns them.
\<close>

datatype node =
    Missing error
  | Node FileInfo "error option" "(string \<times> node) list"

text \<open>
  The file system as the code observes it: the tree at a walk root, \<open>os.Stat\<close>,
  \<open>ioutil.ReadFile\<close>, the patterns of \<open>dockerignore.ReadAll()\<close> and the result of
  \<open>fs.LastModified\<close> on a directory.
\<close>

record filesystem =
  tree :: "string \<Rightarrow> node"
  stat :: "string \<Rightarrow> error + FileInfo"
  readFile :: "string \<Rightarrow> error + string"
  ignorePatterns :: "error + string list"
  lastModified :: "string \<Rightarrow> error + time"

section \<open>The world a task runs in\<close>

text \<open>
  \<^item> \<open>clock\<close>, \<open>ticks\<close>: the successive readings of the wall clock; each reading
    (\<open>time.Now()\<close>, or the file system stamping a written file) takes the next one.
  \<^item> \<open>events\<close>: the events so far.
  \<^item> \<open>engineImage\<close>: what the engine's lookup of the task's image returns.
  \<^item> \<open>engineBuild\<close>: what streaming a build with the given options returns, and what
    the lookup returns after it. The engine's build is opaque.
  \<^item> \<open>recordFile\<close>: the record file at \<open>recordPath(ctx, t.config)\<close>: a read error, or
    the stored image identifier and the file's modification time.
  \<^item> \<open>writeFaults\<close>: the outcome of each coming write of the record file, in order
    (\<open>None\<close>, or no element left: the write succeeds).
\<close>

record world =
  files :: filesystem
  clock :: "nat \<Rightarrow> time"
  ticks :: nat
  events :: "event list"
  engineImage :: "error + Image"
  engineBuild :: "BuildImageOptions \<Rightarrow> error option \<times> (error + Image)"
  recordFile :: "error + (string \<times> time)"
  writeFaults :: "error option list"

definition emit :: "event \<Rightarrow> world \<Rightarrow> world" where
  "emit ev w = w\<lparr>events := events w @ [ev]\<rparr>"

definition Now :: "world \<Rightarrow> time \<times> world" where
  "Now w = (clock w (ticks w), w\<lparr>ticks := Suc (ticks w)\<rparr>)"

subsection \<open>The collaborators\<close>

text \<open>\<open>GetImage(ctx, t.config)\<close>: the engine's lookup of the task's image.\<close>

definition GetImage :: "ExecuteContext \<Rightarrow> ImageConfig \<Rightarrow> world \<Rightarrow> (error + Image) \<times> world" where
  "GetImage ctx cfg w = (engineImage w, emit CallGetImage w)"

text \<open>\<open>fs.LastModified(dir)\<close>: the latest modification time under a directory.\<close>

definition LastModified :: "string \<Rightarrow> world \<Rightarrow> (error + time) \<times> world" where
  "LastModified dir w = (lastModified (files w) dir, emit (CallLastModified dir) w)"

text \<open>
  Modelled from the spec: the build record store of section 4.6 (\<open>getImageRecord\<close> and
  \<open>updateImageRecord\<close> are not part of the sources). A read gives the stored identifier
  with the record file's own \<open>FileInfo\<close>, or fails. A write fully replaces the record;
  the file's modification time is the clock reading at the write. A failed write leaves
  the file as it was.
\<close>

definition getImageRecord :: "world \<Rightarrow> (error + imageModifiedRecord) \<times> world" where
  "getImageRecord w =
     ((case recordFile w of
         Inl e \<Rightarrow> Inl e
       | Inr (i, m) \<Rightarrow>
           Inr \<lparr>ImageID = i, Info = Some \<lparr>IsDir = False, FileMode = 420, FileModTime = m\<rparr>\<rparr>),
      emit CallGetImageRecord w)"

definition updateImageRecord :: "imageModifiedRecord \<Rightarrow> world \<Rightarrow> error option \<times> world" where
  "updateImageRecord rec w =
     (let w1 = emit (CallUpdateImageRecord (ImageID rec)) w in
      case writeFaults w1 of
        Some e # rest \<Rightarrow> (Some e, w1\<lparr>writeFaults := rest\<rparr>)
      | None # rest \<Rightarrow>
          (case Now w1 of (m, w2) \<Rightarrow>
             (None, w2\<lparr>recordFile := Inr (ImageID rec, m), writeFaults := rest\<rparr>))
      | [] \<Rightarrow>
          (case Now w1 of (m, w2) \<Rightarrow> (None, w2\<lparr>recordFile := Inr (ImageID rec, m)\<rparr>)))"

section \<open>The staleness check\<close>

definition buildIsStale ::
  "ExecuteContext \<Rightarrow> Task \<Rightarrow> world \<Rightarrow> ((bool \<times> error option) \<times> world) outcome" where
  "buildIsStale ctx t w =
     (case GetImage ctx (config t) w of
        (Inl err, w1) \<Rightarrow>
          (if err = ErrNoSuchImage
           then Return ((True, None), emit (LogDebug ''Image does not exist'') w1)
           else Return ((True, Some err), w1))
      | (Inr img, w1) \<Rightarrow>
          (case LastModified (Context (config t)) w1 of
             (Inl err, w2) \<Rightarrow>
               Return ((True, Some err),
                 emit (LogWarn ''Failed to get last modified time of context.'') w2)
           | (Inr mtime, w2) \<Rightarrow>
               (case getImageRecord w2 of
                  (Inl err, w3) \<Rightarrow>
                    (let w4 = emit (LogWarn (''Failed to get image record: '' @ errorString err)) w3
                     in if Before (Created img) mtime
                        then Return ((True, None), emit (LogDebug ''Image older than context'') w4)
                        else Return ((False, None), w4))
                | (Inr rec, w3) \<Rightarrow>
                    (case Info rec of
                       None \<Rightarrow> (if ID img \<noteq> ImageID rec then
                                   Return ((True, None),
                                     emit (LogDebug ''Image record older than context'') w3)
                                 else Panic)
                     | Some info \<Rightarrow>
                         (if ID img \<noteq> ImageID rec \<or> Before (FileModTime info) mtime
                          then Return ((True, None),
                                 emit (LogDebug ''Image record older than context'') w3)
                          else Return ((False, None), w3))))))"

section \<open>Scanning the context and the ignored paths\<close>

text \<open>
  \<open>filepath.Clean\<close> on a system whose separator is the slash. The path is read element
  by element: empty elements and \<open>.\<close> are dropped; \<open>..\<close> removes the element before it,
  is dropped at the root of a rooted path, and is kept at the front of a path that is
  not rooted. The empty result is \<open>.\<close>.
\<close>

fun splitPath :: "string \<Rightarrow> string list" where
  "splitPath [] = [[]]"
| "splitPath (c # cs) =
     (if c = CHR ''/'' then [] # splitPath cs
      else (case splitPath cs of [] \<Rightarrow> [[c]] | e # es \<Rightarrow> (c # e) # es))"

definition cleanStep :: "bool \<Rightarrow> string list \<Rightarrow> string \<Rightarrow> string list" where
  "cleanStep rooted out elem =
     (if elem = [] \<or> elem = ''.'' then out
      else if elem = ''..''
        then (if out \<noteq> [] \<and> last out \<noteq> ''..'' then butlast out
              else if rooted then out
              else out @ [''..''])
      else out @ [elem])"

fun joinSlash :: "string list \<Rightarrow> string" where
  "joinSlash [] = []"
| "joinSlash [e] = e"
| "joinSlash (e # es) = e @ ''/'' @ joinSlash es"

definition Clean :: "string \<Rightarrow> string" where
  "Clean path =
     (if path = [] then ''.''
      else (let rooted = (hd path = CHR ''/'');
                out = joinSlash (foldl (cleanStep rooted) [] (splitPath path))
            in if rooted then CHR ''/'' # out
               else if out = [] then ''.'' else out))"

text \<open>
  \<open>filepath.Join\<close> of a directory path and a name: the two joined by a slash, from the
  first that is not empty, and cleaned.
\<close>

definition Join :: "string \<Rightarrow> string \<Rightarrow> string" where
  "Join dir name =
     (if dir \<noteq> [] then Clean (dir @ ''/'' @ name)
      else if name \<noteq> [] then Clean name
      else [])"

text \<open>
  \<open>filepath.WalkFunc\<close>, for a callback that updates a captured variable of type \<open>'s\<close>:
  it gets the path, the \<open>FileInfo\<close> (nil when \<open>Lstat\<close> failed) and the error, and
  returns an error or panics.
\<close>

type_synonym 's WalkFunc =
  "string \<Rightarrow> FileInfo option \<Rightarrow> error option \<Rightarrow> 's \<Rightarrow> (error option \<times> 's) outcome"

text \<open>
  \<open>filepath.Walk\<close> and its recursive \<open>walk\<close>, after the standard library: the callback
  is called on the entry first; a directory's names are then read, and a failure to read
  them is handed to the callback, whose result is returned; a child whose \<open>Lstat\<close>
  fails is handed to the callback with a nil \<open>FileInfo\<close>; any error a callback returns,
  except \<open>SkipDir\<close> on a directory, ends the walk. The library calls \<open>walk\<close> only
  where \<open>Lstat\<close> succeeded; its equation for \<open>Missing\<close> is what \<open>Walk\<close> does at
  such a root.
\<close>

fun walk :: "'s WalkFunc \<Rightarrow> string \<Rightarrow> node \<Rightarrow> 's \<Rightarrow> (error option \<times> 's) outcome"
  and walkNames ::
    "'s WalkFunc \<Rightarrow> string \<Rightarrow> (string \<times> node) list \<Rightarrow> 's \<Rightarrow> (error option \<times> 's) outcome"
where
  "walk walkFn path (Missing e) s = walkFn path None (Some e) s"
| "walk walkFn path (Node info rderr names) s =
     (case walkFn path (Some info) None s of
        Panic \<Rightarrow> Panic
      | Return (Some err, s1) \<Rightarrow>
          (if IsDir info \<and> err = SkipDir then Return (None, s1) else Return (Some err, s1))
      | Return (None, s1) \<Rightarrow>
          (if IsDir info
           then (case rderr of
                   Some e \<Rightarrow> walkFn path (Some info) (Some e) s1
                 | None \<Rightarrow> walkNames walkFn path names s1)
           else Return (None, s1)))"
| "walkNames walkFn path [] s = Return (None, s)"
| "walkNames walkFn path ((name, Missing e) # rest) s =
     (case walkFn (Join path name) None (Some e) s of
        Panic \<Rightarrow> Panic
      | Return (Some err, s1) \<Rightarrow>
          (if err = SkipDir then walkNames walkFn path rest s1 else Return (Some err, s1))
      | Return (None, s1) \<Rightarrow> walkNames walkFn path rest s1)"
| "walkNames walkFn path ((name, Node info rderr names) # rest) s =
     (case walk walkFn (Join path name) (Node info rderr names) s of
        Panic \<Rightarrow> Panic
      | Return (Some err, s1) \<Rightarrow>
          (if IsDir info \<and> err = SkipDir then walkNames walkFn path rest s1
           else Return (Some err, s1))
      | Return (None, s1) \<Rightarrow> walkNames walkFn path rest s1)"

definition Walk :: "filesystem \<Rightarrow> string \<Rightarrow> 's WalkFunc \<Rightarrow> 's \<Rightarrow> (error option \<times> 's) outcome" where
  "Walk fsys root walkFn s =
     (case (case tree fsys root of
              Missing e \<Rightarrow> walkFn root None (Some e) s
            | Node info rderr names \<Rightarrow> walk walkFn root (Node info rderr names) s) of
        Panic \<Rightarrow> Panic
      | Return (err, s1) \<Rightarrow> (if err = Some SkipDir then Return (None, s1) else Return (err, s1)))"

text \<open>
  The closure \<open>scanRoot2Slice\<close> passes to the walk. It does not look at \<open>err\<close>, calls
  \<open>f.IsDir()\<close> (a nil dereference when \<open>f\<close> is nil) and returns nil.
\<close>

definition scanCallback :: "string list WalkFunc" where
  "scanCallback path f err placeholder =
     (case f of
        None \<Rightarrow> Panic
      | Some info \<Rightarrow>
          Return (None, if IsDir info then placeholder else placeholder @ [path]))"

definition scanRoot2Slice ::
  "filesystem \<Rightarrow> string \<Rightarrow> string list \<Rightarrow> (string list \<times> error option) outcome" where
  "scanRoot2Slice fsys root placeholder =
     (case Walk fsys root scanCallback placeholder of
        Panic \<Rightarrow> Panic
      | Return (err, placeholder') \<Rightarrow> Return (placeholder', err))"

definition scanContext :: "Task \<Rightarrow> filesystem \<Rightarrow> (string list \<times> error option) outcome" where
  "scanContext t fsys = scanRoot2Slice fsys (Context (config t)) []"

text \<open>The loop of \<open>scanIgnored\<close> over the patterns read.\<close>

fun scanIgnoredLoop ::
  "filesystem \<Rightarrow> string list \<Rightarrow> string list \<Rightarrow> (string list \<times> error option) outcome" where
  "scanIgnoredLoop fsys [] resolvedignores = Return (resolvedignores, None)"
| "scanIgnoredLoop fsys (val # rest) resolvedignores =
     (case scanRoot2Slice fsys val resolvedignores of
        Panic \<Rightarrow> Panic
      | Return (resolvedignores', Some err) \<Rightarrow> Return (resolvedignores', Some err)
      | Return (resolvedignores', None) \<Rightarrow> scanIgnoredLoop fsys rest resolvedignores')"

definition scanIgnored :: "Task \<Rightarrow> filesystem \<Rightarrow> (string list \<times> error option) outcome" where
  "scanIgnored t fsys =
     (case ignorePatterns fsys of
        Inl err \<Rightarrow> Return ([], Some err)
      | Inr allIgnored \<Rightarrow> scanIgnoredLoop fsys allIgnored [])"

text \<open>
  Modelled from the spec: \<open>dockerignore.Difference\<close> (section 4.4, not part of the
  sources), the paths of the first sequence that are not in the second.
\<close>

definition Difference :: "string list \<Rightarrow> string list \<Rightarrow> string list" where
  "Difference all ignored = filter (\<lambda>p. p \<notin> set ignored) all"

text \<open>
  \<open>getTarContext\<close> runs the two scans in goroutines and joins them. Both only read the
  file system, so the join has one result; a panic in either goroutine is a panic of the
  program.
\<close>

definition getTarContext :: "Task \<Rightarrow> filesystem \<Rightarrow> (string list \<times> error option) outcome" where
  "getTarContext t fsys =
     (case scanContext t fsys of
        Panic \<Rightarrow> Panic
      | Return (ctxFiles, Some err) \<Rightarrow>
          (case scanIgnored t fsys of Panic \<Rightarrow> Panic | Return r \<Rightarrow> Return ([], Some err))
      | Return (ctxFiles, None) \<Rightarrow>
          (case scanIgnored t fsys of
             Panic \<Rightarrow> Panic
           | Return (ignoredFiles, Some err) \<Rightarrow> Return ([], Some err)
           | Return (ignoredFiles, None) \<Rightarrow> Return (Difference ctxFiles ignoredFiles, None)))"

text \<open>
  The non-directory entries below a path, in the order of the walk, for the statement
  of what a scan returns; and the trees a walk reads without meeting an error.
\<close>

fun nonDirEntries :: "string \<Rightarrow> node \<Rightarrow> string list"
  and nonDirEntriesIn :: "string \<Rightarrow> (string \<times> node) list \<Rightarrow> string list"
where
  "nonDirEntries path (Missing e) = []"
| "nonDirEntries path (Node info rderr names) =
     (if IsDir info then nonDirEntriesIn path names else [path])"
| "nonDirEntriesIn path [] = []"
| "nonDirEntriesIn path ((name, child) # rest) =
     nonDirEntries (Join path name) child @ nonDirEntriesIn path rest"

fun readable :: "node \<Rightarrow> bool"
  and readableIn :: "(string \<times> node) list \<Rightarrow> bool"
where
  "readable (Missing e) = False"
| "readable (Node info rderr names) =
     (if IsDir info then rderr = None \<and> readableIn names else True)"
| "readableIn [] = True"
| "readableIn ((name, child) # rest) = (readable child \<and> readableIn rest)"

section \<open>Packing the archive\<close>

text \<open>
  \<open>filepath.Base\<close> on a system whose separator is the slash: the last element of the
  path, trailing slashes dropped; \<open>.\<close> for the empty path, a slash for a path of slashes.
\<close>

definition Base :: "string \<Rightarrow> string" where
  "Base path =
     (if path = [] then ''.''
      else (let stripped = rev (dropWhile (\<lambda>c. c = CHR ''/'') (rev path));
                last_elem = rev (takeWhile (\<lambda>c. c \<noteq> CHR ''/'') (rev stripped))
            in if last_elem = [] then ''/'' else last_elem))"

definition HasPrefix :: "string \<Rightarrow> string \<Rightarrow> bool" where
  "HasPrefix s pre = (length pre \<le> length s \<and> take (length pre) s = pre)"

definition TrimPrefix :: "string \<Rightarrow> string \<Rightarrow> string" where
  "TrimPrefix s pre = (if HasPrefix s pre then drop (length pre) s else s)"

definition writeDockerfiletoTarBall ::
  "Task \<Rightarrow> TarWriter \<Rightarrow> world \<Rightarrow> (error option \<times> TarWriter) \<times> world" where
  "writeDockerfiletoTarBall t tr w =
     (case Now w of (rightNow, w1) \<Rightarrow>
        (let stepBytes = Steps (config t);
             header = \<lparr>Name = ''Dockerfile'', Size = int (length stepBytes), Mode = 0,
                        ModTime = rightNow, AccessTime = rightNow, ChangeTime = rightNow\<rparr>
         in case WriteHeader header tr of
              (Some err, tr1) \<Rightarrow> ((Some err, tr1), w1)
            | (None, tr1) \<Rightarrow> (Write stepBytes tr1, w1)))"

text \<open>The loop of \<open>writeFilesToTarBall\<close> over the paths of the context.\<close>

fun writeFilesLoop ::
  "Task \<Rightarrow> string list \<Rightarrow> TarWriter \<Rightarrow> world \<Rightarrow> (error option \<times> TarWriter) \<times> world" where
  "writeFilesLoop t [] tr w = ((None, tr), w)"
| "writeFilesLoop t (file # paths) tr w =
     (let entry_name = TrimPrefix file (Base (Context (config t)) @ ''/'');
          w1 = emit (LogDebug (''is writing '' @ entry_name @ '' to tarball'')) w
      in case stat (files w1) file of
           Inl err \<Rightarrow> ((Some err, tr), w1)
         | Inr fileInfo \<Rightarrow>
             (case readFile (files w1) file of
                Inl err \<Rightarrow> ((Some err, tr), w1)
              | Inr byt \<Rightarrow>
                  (case Now w1 of (rightNow, w2) \<Rightarrow>
                     (let header = \<lparr>Name = entry_name, Size = int (length byt),
                                      Mode = int (FileMode fileInfo), ModTime = rightNow,
                                      AccessTime = rightNow, ChangeTime = rightNow\<rparr>
                      in case WriteHeader header tr of
                           (Some err, tr1) \<Rightarrow> ((Some err, tr1), w2)
                         | (None, tr1) \<Rightarrow>
                             (case Write byt tr1 of
                                (Some err, tr2) \<Rightarrow> ((Some err, tr2), w2)
                              | (None, tr2) \<Rightarrow> writeFilesLoop t paths tr2 w2)))))"

definition writeFilesToTarBall ::
  "Task \<Rightarrow> TarWriter \<Rightarrow> world \<Rightarrow> ((error option \<times> TarWriter) \<times> world) outcome" where
  "writeFilesToTarBall t tr w =
     (case getTarContext t (files w) of
        Panic \<Rightarrow> Panic
      | Return (paths, Some err) \<Rightarrow> Return ((Some err, tr), w)
      | Return (paths, None) \<Rightarrow> Return (writeFilesLoop t paths tr w))"

text \<open>
  \<open>writeTarball\<close> returns the buffer with the error; the deferred \<open>tr.Close()\<close> runs on
  every return and its own error is dropped.
\<close>

definition writeTarball :: "Task \<Rightarrow> world \<Rightarrow> ((TarWriter \<times> error option) \<times> world) outcome" where
  "writeTarball t w =
     (case writeDockerfiletoTarBall t NewWriter w of
        ((Some err, tr1), w1) \<Rightarrow> Return ((Close tr1, Some err), w1)
      | ((None, tr1), w1) \<Rightarrow>
          (case writeFilesToTarBall t tr1 w1 of
             Panic \<Rightarrow> Panic
           | Return ((err, tr2), w2) \<Rightarrow> Return ((Close tr2, err), w2)))"

text \<open>The header the loop of \<open>writeFilesToTarBall\<close> builds for a path.\<close>

definition fileHeader :: "Task \<Rightarrow> string \<Rightarrow> FileInfo \<Rightarrow> string \<Rightarrow> time \<Rightarrow> Header" where
  "fileHeader t path fi byt now =
     \<lparr>Name = TrimPrefix path (Base (Context (config t)) @ ''/''), Size = int (length byt),
      Mode = int (FileMode fi), ModTime = now, AccessTime = now, ChangeTime = now\<rparr>"

section \<open>Building the image\<close>

text \<open>
  \<open>buildArgs\<close> ranges over a Go map, whose order of iteration is not fixed; the
  arguments are taken in the order of the list that stands for the map.
\<close>

definition buildArgs :: "(string \<times> string) list \<Rightarrow> BuildArg list" where
  "buildArgs args = map (\<lambda>(key, val). \<lparr>ArgName = key, ArgValue = val\<rparr>) args"

definition commonBuildImageOptions :: "ExecuteContext \<Rightarrow> Task \<Rightarrow> BuildImageOptions" where
  "commonBuildImageOptions ctx t =
     \<lparr>BuildName = ImageName ctx,
      BuildArgs = buildArgs (Args (config t)),
      Pull = PullBaseImageOnBuild (config t),
      RmTmpContainer = True,
      RawJSONStream = True,
      SuppressOutput = Quiet ctx,
      BuildDockerfile = [],
      ContextDir = [],
      InputStream = None\<rparr>"

text \<open>
  \<open>Stream(os.Stdout, func(out) { ...; return ctx.Client.BuildImage(opts) })\<close>: the
  engine is asked to build with the options; the world's \<open>engineBuild\<close> says what the
  streamed build returns and what the engine's lookup returns from then on.
\<close>

definition StreamBuildImage :: "BuildImageOptions \<Rightarrow> world \<Rightarrow> error option \<times> world" where
  "StreamBuildImage opts w =
     (case engineBuild w opts of
        (err, found) \<Rightarrow> (err, (emit (CallBuildImage opts) w)\<lparr>engineImage := found\<rparr>))"

definition buildImageFromDockerfile :: "ExecuteContext \<Rightarrow> Task \<Rightarrow> world \<Rightarrow> error option \<times> world" where
  "buildImageFromDockerfile ctx t w =
     StreamBuildImage
       ((commonBuildImageOptions ctx t)
          \<lparr>BuildDockerfile := Dockerfile (config t), ContextDir := Context (config t)\<rparr>) w"

definition buildImageFromSteps ::
  "ExecuteContext \<Rightarrow> Task \<Rightarrow> world \<Rightarrow> (error option \<times> world) outcome" where
  "buildImageFromSteps ctx t w =
     (case writeTarball t w of
        Panic \<Rightarrow> Panic
      | Return ((inputbuf, Some err), w1) \<Rightarrow> Return (Some err, w1)
      | Return ((inputbuf, None), w1) \<Rightarrow>
          Return (StreamBuildImage
                    ((commonBuildImageOptions ctx t)\<lparr>InputStream := Some inputbuf\<rparr>) w1))"

definition buildImage :: "ExecuteContext \<Rightarrow> Task \<Rightarrow> world \<Rightarrow> (error option \<times> world) outcome" where
  "buildImage ctx t w =
     (case (if Steps (config t) \<noteq> [] then buildImageFromSteps ctx t w
            else Return (buildImageFromDockerfile ctx t w)) of
        Panic \<Rightarrow> Panic
      | Return (Some err, w1) \<Rightarrow> Return (Some err, w1)
      | Return (None, w1) \<Rightarrow>
          (case GetImage ctx (config t) w1 of
             (Inl err, w2) \<Rightarrow> Return (Some err, w2)
           | (Inr img, w2) \<Rightarrow>
               Return (updateImageRecord \<lparr>ImageID = ID img, Info = None\<rparr> w2)))"

text \<open>
  \<open>RunBuild\<close>. The staleness check either ends the run (\<open>Inl\<close> of what is returned) or
  lets it go on to the build.
\<close>

definition RunBuild ::
  "ExecuteContext \<Rightarrow> Task \<Rightarrow> bool \<Rightarrow> world \<Rightarrow> ((bool \<times> error option) \<times> world) outcome" where
  "RunBuild ctx t hasModifiedDeps w =
     (case (if hasModifiedDeps then Return (Inr (), w)
            else (case buildIsStale ctx t w of
                    Panic \<Rightarrow> Panic
                  | Return ((stale, Some err), w1) \<Rightarrow> Return (Inl (False, Some err), w1)
                  | Return ((stale, None), w1) \<Rightarrow>
                      (if stale then Return (Inr (), w1)
                       else Return (Inl (False, None), emit (LogInfo ''is fresh'') w1)))) of
        Panic \<Rightarrow> Panic
      | Return (Inl result, w1) \<Rightarrow> Return (result, w1)
      | Return (Inr u, w1) \<Rightarrow>
          (case buildImage ctx t (emit (LogDebug ''is stale'') w1) of
             Panic \<Rightarrow> Panic
           | Return (Some err, w2) \<Rightarrow> Return ((False, Some err), w2)
           | Return (None, w2) \<Rightarrow>
               (case GetImage ctx (config t) w2 of
                  (Inl err, w3) \<Rightarrow> Return ((False, Some err), w3)
                | (Inr img, w3) \<Rightarrow>
                    (case updateImageRecord \<lparr>ImageID = ID img, Info = None\<rparr> w3 of
                       (Some err, w4) \<Rightarrow>
                         Return ((True, None),
                           emit (LogInfo ''Created'')
                             (emit (LogWarn (''Failed to update image record: '' @ errorString err)) w4))
                     | (None, w4) \<Rightarrow> Return ((True, None), emit (LogInfo ''Created'') w4)))))"

text \<open>The build requests the engine has received, oldest first.\<close>

fun requestsOf :: "event list \<Rightarrow> BuildImageOptions list" where
  "requestsOf [] = []"
| "requestsOf (CallBuildImage opts # evs) = opts # requestsOf evs"
| "requestsOf (ev # evs) = requestsOf evs"

text \<open>What a call returned, the world it left aside; \<open>None\<close> for a panic.\<close>

definition verdict :: "('a \<times> world) outcome \<Rightarrow> 'a option" where
  "verdict r = (case r of Panic \<Rightarrow> None | Return (x, w) \<Rightarrow> Some x)"

section \<open>Example worlds\<close>

definition exCtx :: ExecuteContext where
  "exCtx = \<lparr>Quiet = False, ImageName = ''example/app''\<rparr>"

definition exTask :: Task where
  "exTask = \<lparr>config = \<lparr>Context = ''app'', Dockerfile = ''Dockerfile'', Steps = [],
     Args = [], PullBaseImageOnBuild = False\<rparr>\<rparr>"

definition exImage :: Image where
  "exImage = \<lparr>ID = ''sha256:new'', Created = 40\<rparr>"

text \<open>A context directory \<open>app\<close> holding one file, last modified at instant 50.\<close>

definition exFiles :: filesystem where
  "exFiles = \<lparr>
     tree = (\<lambda>p. if p = ''app''
       then Node \<lparr>IsDir = True, FileMode = 493, FileModTime = 50\<rparr> None
              [(''main.go'', Node \<lparr>IsDir = False, FileMode = 420, FileModTime = 50\<rparr> None [])]
       else Missing (Err ''no such file or directory'')),
     stat = (\<lambda>p. if p = ''app/main.go''
       then Inr \<lparr>IsDir = False, FileMode = 420, FileModTime = 50\<rparr>
       else Inl (Err ''no such file or directory'')),
     readFile = (\<lambda>p. if p = ''app/main.go'' then Inr ''package main''
       else Inl (Err ''no such file or directory'')),
     ignorePatterns = Inr [],
     lastModified = (\<lambda>p. if p = ''app'' then Inr 50 else Inl (Err ''no such file or directory''))\<rparr>"

text \<open>
  A world with the image built and the record of the build written at instant 50: the
  record's time ties with the context's.
\<close>

definition exWorld :: world where
  "exWorld = \<lparr>files = exFiles, clock = (\<lambda>n. 60 + int n), ticks = 0, events = [],
     engineImage = Inr exImage,
     engineBuild = (\<lambda>opts. (None, Inr exImage)),
     recordFile = Inr (''sha256:new'', 50),
     writeFaults = []\<rparr>"

definition exFile :: node where
  "exFile = Node \<lparr>IsDir = False, FileMode = 420, FileModTime = 50\<rparr> None []"

definition exDirInfo :: FileInfo where
  "exDirInfo = \<lparr>IsDir = True, FileMode = 493, FileModTime = 50\<rparr>"

text \<open>
  The context holds two files and, between them, a directory \<open>secret\<close> whose names
  cannot be read.
\<close>

definition exUnreadable :: filesystem where
  "exUnreadable = exFiles\<lparr>tree := (\<lambda>p. if p = ''app''
       then Node exDirInfo None
              [(''a.txt'', exFile),
               (''secret'', Node exDirInfo (Some (Err ''permission denied'')) []),
               (''z.txt'', exFile)]
       else Missing (Err ''no such file or directory''))\<rparr>"

text \<open>The ignore file names a directory \<open>vendor\<close> that does not exist.\<close>

definition exIgnoreMissing :: filesystem where
  "exIgnoreMissing = exFiles\<lparr>ignorePatterns := Inr [''vendor'']\<rparr>"


text \<open>Nothing is built yet: no image, no record.\<close>

definition exFresh :: world where
  "exFresh = exWorld\<lparr>engineImage := Inl ErrNoSuchImage,
     recordFile := Inl (Err ''open .dobi/images/app: no such file or directory'')\<rparr>"

text \<open>Nothing is built yet; the first write of the record file will fail.\<close>

definition exWriteFails :: world where
  "exWriteFails = exFresh\<lparr>writeFaults := [Some (Err ''permission denied'')]\<rparr>"

text \<open>A task built from inline steps, with a Dockerfile path configured as well.\<close>

definition exStepsTask :: Task where
  "exStepsTask = \<lparr>config = \<lparr>Context = ''app'', Dockerfile = ''Dockerfile'', Steps = ''FROM x'',
     Args = [], PullBaseImageOnBuild = False\<rparr>\<rparr>"


text \<open>The file of the context cannot be read.\<close>

definition exReadFails :: world where
  "exReadFails = exWorld\<lparr>files := exFiles\<lparr>readFile := (\<lambda>p. Inl (Err ''permission denied''))\<rparr>\<rparr>"

text \<open>A task with neither a Dockerfile path nor inline steps.\<close>

definition exNeither :: Task where
  "exNeither = \<lparr>config = \<lparr>Context = ''app'', Dockerfile = [], Steps = [],
     Args = [], PullBaseImageOnBuild = False\<rparr>\<rparr>"

text \<open>
  Nothing is built yet, and a file of the context carries a modification time (100)
  ahead of the wall clock (60 and later).
\<close>

definition exLate :: world where
  "exLate = exFresh\<lparr>files := exFiles\<lparr>lastModified := (\<lambda>p. Inr 100)\<rparr>\<rparr>"

text \<open>Nothing is built yet; the second write of the record file will fail.\<close>

definition exSecondWriteFails :: world where
  "exSecondWriteFails = exFresh\<lparr>writeFaults := [None, Some (Err ''permission denied'')]\<rparr>"


section \<open>Theorems\<close>

subsection \<open>Joined paths\<close>

lemma Join_app:
  "Join ''app'' ''main.go'' = ''app/main.go''"
  "Join ''app'' ''a.txt'' = ''app/a.txt''"
  "Join ''app'' ''secret'' = ''app/secret''"
  "Join ''app'' ''z.txt'' = ''app/z.txt''"
  by (simp_all add: Join_def Clean_def cleanStep_def)

text \<open>The walk of a root that is not a clean path names the files by cleaned paths.\<close>

lemma Join_cleans:
  "Join ''.'' ''main.go'' = ''main.go''"
  "Join ''app/'' ''main.go'' = ''app/main.go''"
  "Join ''/'' ''etc'' = ''/etc''"
  "Join ''./app'' ''main.go'' = ''app/main.go''"
  "Join ''app/../lib'' ''x.go'' = ''lib/x.go''"
  by (simp_all add: Join_def Clean_def cleanStep_def)

subsection \<open>The staleness check\<close>

text \<open>
  C2. When the image is found, the context's modification time is computed and the
  build record is readable, the check returns no error and is stale exactly when the
  record's image identifier differs from the image's or the record file's modification
  time is strictly before the context's. So differing identifiers give stale whatever
  the times are, and equal times with equal identifiers give fresh.
\<close>

theorem buildIsStale_record_readable:
  assumes "engineImage w = Inr img"
    and "lastModified (files w) (Context (config t)) = Inr mtime"
    and "recordFile w = Inr (rid, rtime)"
  shows "\<exists>w'. buildIsStale ctx t w = Return ((ID img \<noteq> rid \<or> rtime < mtime, None), w')"
  using assms
  by (simp add: buildIsStale_def GetImage_def LastModified_def getImageRecord_def
      emit_def Before_def)

theorem buildIsStale_record_readable_witness:
  "engineImage exWorld = Inr exImage
   \<and> lastModified (files exWorld) (Context (config exTask)) = Inr 50
   \<and> recordFile exWorld = Inr (''sha256:new'', 50)
   \<and> (\<exists>w'. buildIsStale exCtx exTask exWorld = Return ((False, None), w'))
   \<and> (\<exists>w'. buildIsStale exCtx exTask (exWorld\<lparr>recordFile := Inr (''sha256:old'', 99)\<rparr>)
          = Return ((True, None), w'))
   \<and> (\<exists>w'. buildIsStale exCtx exTask (exWorld\<lparr>recordFile := Inr (''sha256:new'', 49)\<rparr>)
          = Return ((True, None), w'))"
  using buildIsStale_record_readable [of exWorld exImage exTask 50 "''sha256:new''" 50 exCtx]
    buildIsStale_record_readable [of "exWorld\<lparr>recordFile := Inr (''sha256:old'', 99)\<rparr>"
      exImage exTask 50 "''sha256:old''" 99 exCtx]
    buildIsStale_record_readable [of "exWorld\<lparr>recordFile := Inr (''sha256:new'', 49)\<rparr>"
      exImage exTask 50 "''sha256:new''" 49 exCtx]
  by (simp add: exWorld_def exFiles_def exTask_def exImage_def)

text \<open>
  C3. When the image is found and the context's modification time is computed but
  reading the build record fails, the check does not return that error: it logs a
  warning and returns, with a nil error, stale exactly when the image's creation time is
  strictly before the context's modification time.
\<close>

theorem buildIsStale_record_unreadable:
  assumes "engineImage w = Inr img"
    and "lastModified (files w) (Context (config t)) = Inr mtime"
    and "recordFile w = Inl e"
  shows "\<exists>w'. buildIsStale ctx t w = Return ((Created img < mtime, None), w')
           \<and> LogWarn (''Failed to get image record: '' @ errorString e) \<in> set (events w')"
  using assms
  by (simp add: buildIsStale_def GetImage_def LastModified_def getImageRecord_def
      emit_def Before_def Let_def)

theorem buildIsStale_record_unreadable_witness:
  "(\<exists>w'. buildIsStale exCtx exTask (exWorld\<lparr>recordFile := Inl (Err ''open: no such file'')\<rparr>)
          = Return ((True, None), w'))
   \<and> (\<exists>w'. buildIsStale exCtx exTask
          (exWorld\<lparr>recordFile := Inl (Err ''open: no such file''),
             engineImage := Inr \<lparr>ID = ''sha256:new'', Created = 51\<rparr>\<rparr>)
          = Return ((False, None), w'))"
  using buildIsStale_record_unreadable
      [of "exWorld\<lparr>recordFile := Inl (Err ''open: no such file'')\<rparr>"
        exImage exTask 50 "Err ''open: no such file''" exCtx]
    buildIsStale_record_unreadable
      [of "exWorld\<lparr>recordFile := Inl (Err ''open: no such file''),
             engineImage := Inr \<lparr>ID = ''sha256:new'', Created = 51\<rparr>\<rparr>"
        "\<lparr>ID = ''sha256:new'', Created = 51\<rparr>" exTask 50 "Err ''open: no such file''" exCtx]
  by (auto simp add: exWorld_def exFiles_def exTask_def exImage_def)

text \<open>
  C4. When the engine's lookup fails, the check returns stale at once. For
  \<open>ErrNoSuchImage\<close> the error is nil; for any other error it is that error. In both
  cases the only call made is the lookup: the context's modification time is not
  computed and the record is not read.
\<close>

theorem buildIsStale_lookup_fails:
  assumes "engineImage w = Inl e"
  shows "buildIsStale ctx t w =
     Return ((True, if e = ErrNoSuchImage then None else Some e),
       w\<lparr>events := events w @
          (if e = ErrNoSuchImage then [CallGetImage, LogDebug ''Image does not exist'']
           else [CallGetImage])\<rparr>)"
  using assms by (simp add: buildIsStale_def GetImage_def emit_def)

theorem buildIsStale_lookup_fails_witness:
  "buildIsStale exCtx exTask (exWorld\<lparr>engineImage := Inl ErrNoSuchImage\<rparr>) =
     Return ((True, None), exWorld\<lparr>engineImage := Inl ErrNoSuchImage,
       events := [CallGetImage, LogDebug ''Image does not exist'']\<rparr>)
   \<and> buildIsStale exCtx exTask (exWorld\<lparr>engineImage := Inl (Err ''connection refused'')\<rparr>) =
     Return ((True, Some (Err ''connection refused'')),
       exWorld\<lparr>engineImage := Inl (Err ''connection refused''), events := [CallGetImage]\<rparr>)"
  using buildIsStale_lookup_fails [of "exWorld\<lparr>engineImage := Inl ErrNoSuchImage\<rparr>"
      ErrNoSuchImage exCtx exTask]
    buildIsStale_lookup_fails [of "exWorld\<lparr>engineImage := Inl (Err ''connection refused'')\<rparr>"
      "Err ''connection refused''" exCtx exTask]
  by (simp add: exWorld_def)

subsection \<open>The path scan\<close>

lemma scanCallback_cases:
  "scanCallback path f e ph = Panic \<or> (\<exists>ph'. scanCallback path f e ph = Return (None, ph'))"
  by (simp add: scanCallback_def split: option.splits)

text \<open>On a tree read without error, the walk appends the non-directory entries in order.\<close>

lemma walk_scan_readable:
  "walkFn = scanCallback \<Longrightarrow> readable nd \<Longrightarrow>
     walk walkFn path nd ph = Return (None, ph @ nonDirEntries path nd)"
  "walkFn = scanCallback \<Longrightarrow> readableIn ns \<Longrightarrow>
     walkNames walkFn path ns ph = Return (None, ph @ nonDirEntriesIn path ns)"
  by (induction walkFn path nd ph and walkFn path ns ph rule: walk_walkNames.induct)
     (simp_all add: scanCallback_def split: if_splits)

lemma scanRoot2Slice_readable:
  assumes "readable (tree fsys root)"
  shows "scanRoot2Slice fsys root ph = Return (ph @ nonDirEntries root (tree fsys root), None)"
proof (cases "tree fsys root")
  case (Missing e)
  then show ?thesis using assms by simp
next
  case (Node info rderr names)
  then show ?thesis
    using assms walk_scan_readable(1) [of scanCallback "tree fsys root" root ph]
    by (simp add: scanRoot2Slice_def Walk_def del: walk.simps)
qed

text \<open>The callback returns nil whatever it is given, so no walk ends with an error.\<close>

lemma walk_scan_no_error:
  "walkFn = scanCallback \<Longrightarrow> walk walkFn path nd ph = Return (err, xs) \<Longrightarrow> err = None"
  "walkFn = scanCallback \<Longrightarrow> walkNames walkFn path ns ph = Return (err, xs) \<Longrightarrow> err = None"
proof (induction walkFn path nd ph and walkFn path ns ph arbitrary: err xs and err xs
    rule: walk_walkNames.induct)
  case (1 walkFn path e s)
  then show ?case using scanCallback_cases [of path None "Some e" s] by auto
next
  case (2 walkFn path info rderr names s)
  from scanCallback_cases [of path "Some info" None s]
  obtain s1 where s1: "scanCallback path (Some info) None s = Return (None, s1)"
    using 2 by auto
  show ?case
  proof (cases "IsDir info")
    case False
    then show ?thesis using 2(2,3) s1 by simp
  next
    case True
    show ?thesis
    proof (cases rderr)
      case None
      then show ?thesis using 2(1)[of "(None, s1)" None s1] 2(2,3) s1 True by simp
    next
      case (Some e)
      then show ?thesis
        using 2(2,3) s1 True scanCallback_cases [of path "Some info" "Some e" s1] by auto
    qed
  qed
next
  case (3 walkFn path s)
  then show ?case by simp
next
  case (4 walkFn path name e rest s)
  then show ?case by (simp add: scanCallback_def)
next
  case (5 walkFn path name info rderr names rest s)
  show ?case
  proof (cases "walk walkFn (Join path name) (Node info rderr names) s")
    case Panic
    then show ?thesis using 5(5) by simp
  next
    case (Return r)
    obtain e1 s1 where r: "r = (e1, s1)" by (cases r)
    have e1: "e1 = None" using 5(1)[OF 5(4)] Return r by (simp del: walk.simps)
    then have rest_eq: "walkNames walkFn path rest s1 = Return (err, xs)"
      using 5(5) Return r by (simp del: walk.simps)
    show ?thesis by (rule 5(2)[OF Return r[symmetric] e1 5(4) rest_eq])
  qed
qed

lemma scanRoot2Slice_no_error:
  assumes "scanRoot2Slice fsys root ph = Return (xs, err)"
  shows "err = None"
proof (cases "tree fsys root")
  case (Missing e)
  then show ?thesis using assms
    by (simp add: scanRoot2Slice_def Walk_def scanCallback_def)
next
  case (Node info rderr names)
  show ?thesis
  proof (cases "walk scanCallback root (Node info rderr names) ph")
    case Panic
    then show ?thesis using assms Node by (simp add: scanRoot2Slice_def Walk_def del: walk.simps)
  next
    case (Return r)
    obtain e1 s1 where r: "r = (e1, s1)" by (cases r)
    have "e1 = None" using walk_scan_no_error(1)[OF refl] Return r by blast
    then show ?thesis using assms Node Return r
      by (simp add: scanRoot2Slice_def Walk_def del: walk.simps)
  qed
qed

lemma scanRoot2Slice_missing_root:
  assumes "tree fsys root = Missing e"
  shows "scanRoot2Slice fsys root ph = Panic"
  using assms by (simp add: scanRoot2Slice_def Walk_def scanCallback_def)

text \<open>
  C6 (code bug). The claim says that any walk error aborts the scan, which then
  returns the partial list with that error. Here a directory of the context cannot be
  read: the scan goes on past it and returns both files with a nil error.
\<close>

theorem scanRoot2Slice_drops_walk_error:
  "scanRoot2Slice exUnreadable ''app'' [] = Return ([''app/a.txt'', ''app/z.txt''], None)"
  by (simp add: scanRoot2Slice_def Walk_def exUnreadable_def exFile_def exDirInfo_def
      scanCallback_def Join_app)

subsection \<open>The ignored paths\<close>

text \<open>
  The loop over the patterns never returns an error, so \<open>scanIgnored\<close> returns one
  only when reading the patterns fails.
\<close>

lemma scanIgnoredLoop_no_error:
  "scanIgnoredLoop fsys pats acc = Return (xs, err) \<Longrightarrow> err = None"
proof (induction pats arbitrary: acc)
  case Nil
  then show ?case by simp
next
  case (Cons p pats)
  show ?case
  proof (cases "scanRoot2Slice fsys p acc")
    case Panic
    then show ?thesis using Cons.prems by simp
  next
    case (Return r)
    obtain acc' e1 where r: "r = (acc', e1)" by (cases r)
    have "e1 = None" using scanRoot2Slice_no_error Return r by blast
    then show ?thesis using Cons.IH [of acc'] Cons.prems Return r by simp
  qed
qed

lemma scanIgnored_error:
  assumes "scanIgnored t fsys = Return (xs, Some e)"
  shows "ignorePatterns fsys = Inl e \<and> xs = []"
proof (cases "ignorePatterns fsys")
  case (Inl e')
  then show ?thesis using assms by (simp add: scanIgnored_def)
next
  case (Inr pats)
  then show ?thesis using assms scanIgnoredLoop_no_error [of fsys pats "[]" xs "Some e"]
    by (simp add: scanIgnored_def)
qed

text \<open>
  C7 (code bug). The claim says that a pattern whose directory does not exist adds
  nothing, without an error or a crash. Here the ignore file names a directory that
  does not exist: the walk hands the callback a nil \<open>FileInfo\<close> and the scan panics.
\<close>

theorem scanIgnored_missing_directory_panics:
  "tree exIgnoreMissing ''vendor'' = Missing (Err ''no such file or directory'')
   \<and> scanIgnored exTask exIgnoreMissing = Panic"
  by (simp add: scanIgnored_def scanRoot2Slice_def Walk_def exIgnoreMissing_def exFiles_def
      scanCallback_def)

subsection \<open>The record write in the build\<close>

text \<open>
  C1 (code bug). The claim says that a failure to write the build record after a
  successful image build is a warning only. Here nothing is built yet, the engine
  builds the image, and the write of the record fails: \<open>buildImage\<close> returns the
  write's error and \<open>RunBuild\<close> returns it, although the image is there.
\<close>

theorem RunBuild_record_write_failure:
  "(case RunBuild exCtx exTask False exWriteFails of
      Panic \<Rightarrow> None
    | Return (result, w') \<Rightarrow> Some (result, engineImage w'))
   = Some ((False, Some (Err ''permission denied'')), Inr exImage)"
  by (simp add: RunBuild_def buildIsStale_def buildImage_def buildImageFromDockerfile_def
      StreamBuildImage_def GetImage_def updateImageRecord_def emit_def exWriteFails_def
      exFresh_def exWorld_def exTask_def Let_def)

subsection \<open>The archive\<close>




subsection \<open>The loop over the files of the context\<close>

lemma append_data_last: "append_data (xs @ [(h, d)]) b = xs @ [(h, d @ b)]"
proof (induction xs)
  case Nil
  show ?case by simp
next
  case (Cons x xs)
  then show ?case by (cases "xs @ [(h, d)]") auto
qed

lemma writeFilesLoop_step:
  assumes "\<not> closed tr" "nb tr = 0"
    and "stat (files w) file = Inr fi" "readFile (files w) file = Inr byt"
  shows "writeFilesLoop t (file # paths) tr w =
     writeFilesLoop t paths
       (tr\<lparr>entries := entries tr @ [(fileHeader t file fi byt (clock w (ticks w)), byt)], nb := 0\<rparr>)
       (w\<lparr>events := events w @ [LogDebug (''is writing '' @ TrimPrefix file (Base (Context (config t)) @ ''/'') @ '' to tarball'')],
          ticks := Suc (ticks w)\<rparr>)"
  using assms
  by (simp add: Let_def emit_def Now_def WriteHeader_def Write_def append_data_last fileHeader_def)

lemma writeFilesLoop_ok:
  assumes "\<not> closed tr" "nb tr = 0"
    and "\<forall>file\<in>set paths. \<exists>fi byt. stat (files w) file = Inr fi \<and> readFile (files w) file = Inr byt"
  shows "\<exists>tr' w'. writeFilesLoop t paths tr w = ((None, tr'), w')
     \<and> \<not> closed tr' \<and> nb tr' = 0
     \<and> length (entries tr') = length (entries tr) + length paths
     \<and> take (length (entries tr)) (entries tr') = entries tr
     \<and> (\<forall>i<length paths. \<forall>fi byt. stat (files w) (paths ! i) = Inr fi \<longrightarrow>
            readFile (files w) (paths ! i) = Inr byt \<longrightarrow>
            entries tr' ! (length (entries tr) + i) =
              (fileHeader t (paths ! i) fi byt (clock w (ticks w + i)), byt))"
  using assms
proof (induction paths arbitrary: tr w)
  case Nil
  then show ?case by simp
next
  case (Cons p paths)
  from Cons.prems(3) obtain fi byt where
    ok: "stat (files w) p = Inr fi" "readFile (files w) p = Inr byt"
    by auto
  define tr2 where "tr2 = tr\<lparr>entries := entries tr @ [(fileHeader t p fi byt (clock w (ticks w)), byt)], nb := 0\<rparr>"
  define w2 where "w2 = w\<lparr>events := events w @ [LogDebug (''is writing '' @ TrimPrefix p (Base (Context (config t)) @ ''/'') @ '' to tarball'')],
          ticks := Suc (ticks w)\<rparr>"
  have step: "writeFilesLoop t (p # paths) tr w = writeFilesLoop t paths tr2 w2"
    unfolding tr2_def w2_def by (rule writeFilesLoop_step [OF Cons.prems(1,2) ok])
  have p2: "\<not> closed tr2" "nb tr2 = 0"
    using Cons.prems(1) by (simp_all add: tr2_def)
  have f2: "files w2 = files w" "clock w2 = clock w" "ticks w2 = Suc (ticks w)"
    by (simp_all add: w2_def)
  have all2: "\<forall>f\<in>set paths. \<exists>fi byt. stat (files w2) f = Inr fi \<and> readFile (files w2) f = Inr byt"
    using Cons.prems(3) f2 by simp
  from Cons.IH [OF p2 all2] obtain tr' w' where
    res: "writeFilesLoop t paths tr2 w2 = ((None, tr'), w')"
    and inv: "\<not> closed tr'" "nb tr' = 0"
    and len: "length (entries tr') = length (entries tr2) + length paths"
    and pre: "take (length (entries tr2)) (entries tr') = entries tr2"
    and nth: "\<forall>i<length paths. \<forall>fi byt. stat (files w2) (paths ! i) = Inr fi \<longrightarrow>
            readFile (files w2) (paths ! i) = Inr byt \<longrightarrow>
            entries tr' ! (length (entries tr2) + i) =
              (fileHeader t (paths ! i) fi byt (clock w2 (ticks w2 + i)), byt)"
    by blast
  have e2: "entries tr2 = entries tr @ [(fileHeader t p fi byt (clock w (ticks w)), byt)]"
    by (simp add: tr2_def)
  have len': "length (entries tr') = length (entries tr) + length (p # paths)"
    using len e2 by simp
  have pre': "take (length (entries tr)) (entries tr') = entries tr"
  proof -
    have "take (length (entries tr)) (entries tr') =
          take (length (entries tr)) (take (length (entries tr2)) (entries tr'))"
      using e2 by (simp add: min_def)
    also have "\<dots> = take (length (entries tr)) (entries tr2)" by (simp only: pre)
    also have "\<dots> = entries tr" by (simp add: e2)
    finally show ?thesis .
  qed
  have first: "entries tr' ! length (entries tr) = (fileHeader t p fi byt (clock w (ticks w)), byt)"
  proof -
    have "entries tr' ! length (entries tr) = take (length (entries tr2)) (entries tr') ! length (entries tr)"
      using e2 by simp
    also have "\<dots> = entries tr2 ! length (entries tr)" by (simp only: pre)
    also have "\<dots> = (fileHeader t p fi byt (clock w (ticks w)), byt)" by (simp add: e2)
    finally show ?thesis .
  qed
  have nth': "\<forall>i<length (p # paths). \<forall>fi' byt'. stat (files w) ((p # paths) ! i) = Inr fi' \<longrightarrow>
            readFile (files w) ((p # paths) ! i) = Inr byt' \<longrightarrow>
            entries tr' ! (length (entries tr) + i) =
              (fileHeader t ((p # paths) ! i) fi' byt' (clock w (ticks w + i)), byt')"
  proof (intro allI impI)
    fix i fi' byt'
    assume i: "i < length (p # paths)"
      and s: "stat (files w) ((p # paths) ! i) = Inr fi'"
      and r: "readFile (files w) ((p # paths) ! i) = Inr byt'"
    show "entries tr' ! (length (entries tr) + i) =
              (fileHeader t ((p # paths) ! i) fi' byt' (clock w (ticks w + i)), byt')"
    proof (cases i)
      case 0
      then show ?thesis using first s r ok by simp
    next
      case (Suc j)
      then have j: "j < length paths" using i by simp
      have "entries tr' ! (length (entries tr2) + j) =
              (fileHeader t (paths ! j) fi' byt' (clock w2 (ticks w2 + j)), byt')"
        using nth j s r Suc f2 by simp
      then show ?thesis using Suc e2 f2 by simp
    qed
  qed
  show ?case using step res inv len' pre' nth' by simp
qed

lemma writeFilesLoop_fails:
  assumes "\<not> closed tr" "nb tr = 0" "i < length paths"
    and "\<forall>j<i. \<exists>fi byt. stat (files w) (paths ! j) = Inr fi \<and> readFile (files w) (paths ! j) = Inr byt"
    and "stat (files w) (paths ! i) = Inl e
         \<or> (\<exists>fi. stat (files w) (paths ! i) = Inr fi \<and> readFile (files w) (paths ! i) = Inl e)"
  shows "\<exists>tr' w'. writeFilesLoop t paths tr w = ((Some e, tr'), w')"
  using assms
proof (induction paths arbitrary: i tr w)
  case Nil
  then show ?case by simp
next
  case (Cons p paths)
  show ?case
  proof (cases i)
    case 0
    then show ?thesis using Cons.prems(5) by (auto simp add: Let_def emit_def)
  next
    case (Suc k)
    from Cons.prems(4) Suc obtain fi byt where
      ok: "stat (files w) p = Inr fi" "readFile (files w) p = Inr byt"
      by fastforce
    define tr2 where "tr2 = tr\<lparr>entries := entries tr @ [(fileHeader t p fi byt (clock w (ticks w)), byt)], nb := 0\<rparr>"
    define w2 where "w2 = w\<lparr>events := events w @ [LogDebug (''is writing '' @ TrimPrefix p (Base (Context (config t)) @ ''/'') @ '' to tarball'')],
          ticks := Suc (ticks w)\<rparr>"
    have step: "writeFilesLoop t (p # paths) tr w = writeFilesLoop t paths tr2 w2"
      unfolding tr2_def w2_def by (rule writeFilesLoop_step [OF Cons.prems(1,2) ok])
    have p2: "\<not> closed tr2" "nb tr2 = 0"
      using Cons.prems(1) by (simp_all add: tr2_def)
    have f2: "files w2 = files w" by (simp add: w2_def)
    have k: "k < length paths" using Cons.prems(3) Suc by simp
    have before: "\<forall>j<k. \<exists>fi byt. stat (files w2) (paths ! j) = Inr fi \<and> readFile (files w2) (paths ! j) = Inr byt"
    proof (intro allI impI)
      fix j assume "j < k"
      then have "Suc j < i" using Suc by simp
      with Cons.prems(4) show "\<exists>fi byt. stat (files w2) (paths ! j) = Inr fi \<and> readFile (files w2) (paths ! j) = Inr byt"
        unfolding f2 by fastforce
    qed
    have bad: "stat (files w2) (paths ! k) = Inl e
         \<or> (\<exists>fi. stat (files w2) (paths ! k) = Inr fi \<and> readFile (files w2) (paths ! k) = Inl e)"
      using Cons.prems(5) Suc f2 by simp
    from Cons.IH [OF p2 k before bad] show ?thesis using step by simp
  qed
qed

lemma requestsOf_append: "requestsOf (xs @ ys) = requestsOf xs @ requestsOf ys"
  by (induction xs rule: requestsOf.induct) simp_all

lemma writeFilesLoop_world:
  "\<exists>k evs. snd (writeFilesLoop t paths tr w) = w\<lparr>ticks := ticks w + k, events := events w @ evs\<rparr>
      \<and> requestsOf evs = []"
proof (induction paths arbitrary: tr w)
  case Nil
  have "snd (writeFilesLoop t [] tr w) = w\<lparr>ticks := ticks w + 0, events := events w @ []\<rparr> \<and> requestsOf [] = []"
    by simp
  then show ?case by blast
next
  case (Cons p paths)
  define ev where "ev = LogDebug (''is writing '' @ TrimPrefix p (Base (Context (config t)) @ ''/'') @ '' to tarball'')"
  define w1 where "w1 = w\<lparr>events := events w @ [ev]\<rparr>"
  define w2 where "w2 = w\<lparr>events := events w @ [ev], ticks := Suc (ticks w)\<rparr>"
  have r1: "w1 = w\<lparr>ticks := ticks w + 0, events := events w @ [ev]\<rparr> \<and> requestsOf [ev] = []"
    by (simp add: w1_def ev_def)
  have r2: "w2 = w\<lparr>ticks := ticks w + 1, events := events w @ [ev]\<rparr> \<and> requestsOf [ev] = []"
    by (simp add: w2_def ev_def)
  have cases3: "snd (writeFilesLoop t (p # paths) tr w) = w1
      \<or> snd (writeFilesLoop t (p # paths) tr w) = w2
      \<or> (\<exists>tr2. snd (writeFilesLoop t (p # paths) tr w) = snd (writeFilesLoop t paths tr2 w2))"
  proof (cases "stat (files w) p")
    case (Inl err)
    then show ?thesis by (simp add: Let_def emit_def w1_def ev_def)
  next
    case (Inr fi)
    note st = this
    show ?thesis
    proof (cases "readFile (files w) p")
      case (Inl err)
      then show ?thesis using st by (simp add: Let_def emit_def w1_def ev_def)
    next
      case (Inr byt)
      note rd = this
      obtain e1 tr1 where wh: "WriteHeader (fileHeader t p fi byt (clock w (ticks w))) tr = (e1, tr1)"
        by (cases "WriteHeader (fileHeader t p fi byt (clock w (ticks w))) tr")
      obtain e2 tr2 where wr: "Write byt tr1 = (e2, tr2)"
        by (cases "Write byt tr1")
      show ?thesis
      proof (cases e1)
        case (Some err)
        then have "snd (writeFilesLoop t (p # paths) tr w) = w2"
          using st rd wh by (simp add: Let_def emit_def Now_def w2_def ev_def fileHeader_def)
        then show ?thesis by simp
      next
        case None
        note n1 = this
        show ?thesis
        proof (cases e2)
          case (Some err)
          then have "snd (writeFilesLoop t (p # paths) tr w) = w2"
            using st rd wh wr n1 by (simp add: Let_def emit_def Now_def w2_def ev_def fileHeader_def)
          then show ?thesis by simp
        next
          case None
          then have "snd (writeFilesLoop t (p # paths) tr w) = snd (writeFilesLoop t paths tr2 w2)"
            using st rd wh wr n1 by (simp add: Let_def emit_def Now_def w2_def ev_def fileHeader_def)
          then show ?thesis by blast
        qed
      qed
    qed
  qed
  then consider (early1) "snd (writeFilesLoop t (p # paths) tr w) = w1"
    | (early2) "snd (writeFilesLoop t (p # paths) tr w) = w2"
    | (rec) tr2 where "snd (writeFilesLoop t (p # paths) tr w) = snd (writeFilesLoop t paths tr2 w2)"
    by blast
  then show ?case
  proof cases
    case early1
    then show ?thesis using r1 by metis
  next
    case early2
    then show ?thesis using r2 by metis
  next
    case rec
    from Cons.IH [of tr2 w2] obtain k evs where
      "snd (writeFilesLoop t paths tr2 w2) = w2\<lparr>ticks := ticks w2 + k, events := events w2 @ evs\<rparr>"
      "requestsOf evs = []" by blast
    then have "snd (writeFilesLoop t (p # paths) tr w) = w\<lparr>ticks := ticks w + (Suc k), events := events w @ (ev # evs)\<rparr>
       \<and> requestsOf (ev # evs) = []"
      using rec by (simp add: w2_def ev_def)
    then show ?thesis by blast
  qed
qed

lemma writeDockerfiletoTarBall_world:
  "snd (writeDockerfiletoTarBall t tr w) = w\<lparr>ticks := ticks w + 1\<rparr>"
  by (simp add: writeDockerfiletoTarBall_def Now_def Let_def split: prod.splits option.splits)

lemma writeTarball_world:
  assumes "writeTarball t w = Return (r, w')"
  shows "\<exists>k evs. w' = w\<lparr>ticks := ticks w + k, events := events w @ evs\<rparr> \<and> requestsOf evs = []"
proof -
  define w1 where "w1 = w\<lparr>ticks := ticks w + 1\<rparr>"
  obtain r1 where d: "writeDockerfiletoTarBall t NewWriter w = (r1, w1)"
    using writeDockerfiletoTarBall_world [of t NewWriter w]
    by (cases "writeDockerfiletoTarBall t NewWriter w") (simp add: w1_def)
  have base: "w1 = w\<lparr>ticks := ticks w + 1, events := events w @ []\<rparr> \<and> requestsOf [] = []"
    by (simp add: w1_def)
  obtain e1 tr1 where r1: "r1 = (e1, tr1)" by (cases r1)
  show ?thesis
  proof (cases e1)
    case (Some err)
    then have "w' = w1" using assms d r1 by (simp add: writeTarball_def)
    then show ?thesis using base by metis
  next
    case None
    note n1 = this
    show ?thesis
    proof (cases "getTarContext t (files w1)")
      case Panic
      then show ?thesis using assms d r1 n1 by (simp add: writeTarball_def writeFilesToTarBall_def)
    next
      case (Return g)
      obtain paths ge where g: "g = (paths, ge)" by (cases g)
      show ?thesis
      proof (cases ge)
        case (Some err)
        then have "w' = w1" using assms d r1 n1 Return g
          by (simp add: writeTarball_def writeFilesToTarBall_def)
        then show ?thesis using base by metis
      next
        case None
        then have w': "w' = snd (writeFilesLoop t paths tr1 w1)"
          using assms d r1 n1 Return g
          by (auto simp add: writeTarball_def writeFilesToTarBall_def split: prod.splits)
        from writeFilesLoop_world [of t paths tr1 w1] obtain k evs where
          "snd (writeFilesLoop t paths tr1 w1) = w1\<lparr>ticks := ticks w1 + k, events := events w1 @ evs\<rparr>"
          "requestsOf evs = []" by blast
        then have "w' = w\<lparr>ticks := ticks w + (1 + k), events := events w @ evs\<rparr> \<and> requestsOf evs = []"
          using w' by (simp add: w1_def)
        then show ?thesis by blast
      qed
    qed
  qed
qed

text \<open>
  C9. With the filtered file set \<open>paths\<close> and a writer ready for a new entry: if every
  path can be stat'ed and read, the pack succeeds and adds one entry per path, in order,
  whose name is the path with the prefix (base name of the context root, then a slash)
  trimmed, whose size is the length of the content, whose mode is the file's mode and
  whose three timestamps are one reading of the clock, taken while packing that path;
  and if the first path that cannot be stat'ed or read fails with \<open>e\<close>, the pack returns
  \<open>e\<close>.
\<close>

theorem writeFilesToTarBall_entries:
  assumes "getTarContext t (files w) = Return (paths, None)"
    and "\<not> closed tr" and "nb tr = 0"
  shows "((\<forall>p\<in>set paths. \<exists>fi byt. stat (files w) p = Inr fi \<and> readFile (files w) p = Inr byt) \<longrightarrow>
          (\<exists>tr' w'. writeFilesToTarBall t tr w = Return ((None, tr'), w')
             \<and> length (entries tr') = length (entries tr) + length paths
             \<and> take (length (entries tr)) (entries tr') = entries tr
             \<and> (\<forall>i<length paths. \<forall>fi byt.
                   stat (files w) (paths ! i) = Inr fi \<longrightarrow>
                   readFile (files w) (paths ! i) = Inr byt \<longrightarrow>
                   entries tr' ! (length (entries tr) + i) =
                     (\<lparr>Name = TrimPrefix (paths ! i) (Base (Context (config t)) @ ''/''),
                       Size = int (length byt), Mode = int (FileMode fi),
                       ModTime = clock w (ticks w + i), AccessTime = clock w (ticks w + i),
                       ChangeTime = clock w (ticks w + i)\<rparr>, byt))))
       \<and> (\<forall>i<length paths. \<forall>e.
             (\<forall>j<i. \<exists>fi byt. stat (files w) (paths ! j) = Inr fi
                        \<and> readFile (files w) (paths ! j) = Inr byt) \<longrightarrow>
             (stat (files w) (paths ! i) = Inl e
              \<or> (\<exists>fi. stat (files w) (paths ! i) = Inr fi \<and> readFile (files w) (paths ! i) = Inl e)) \<longrightarrow>
             (\<exists>tr' w'. writeFilesToTarBall t tr w = Return ((Some e, tr'), w')))"
proof (intro conjI impI allI)
  assume ok: "\<forall>p\<in>set paths. \<exists>fi byt. stat (files w) p = Inr fi \<and> readFile (files w) p = Inr byt"
  from writeFilesLoop_ok [OF assms(2,3) ok, of t]
  show "\<exists>tr' w'. writeFilesToTarBall t tr w = Return ((None, tr'), w')
             \<and> length (entries tr') = length (entries tr) + length paths
             \<and> take (length (entries tr)) (entries tr') = entries tr
             \<and> (\<forall>i<length paths. \<forall>fi byt.
                   stat (files w) (paths ! i) = Inr fi \<longrightarrow>
                   readFile (files w) (paths ! i) = Inr byt \<longrightarrow>
                   entries tr' ! (length (entries tr) + i) =
                     (\<lparr>Name = TrimPrefix (paths ! i) (Base (Context (config t)) @ ''/''),
                       Size = int (length byt), Mode = int (FileMode fi),
                       ModTime = clock w (ticks w + i), AccessTime = clock w (ticks w + i),
                       ChangeTime = clock w (ticks w + i)\<rparr>, byt))"
    using assms(1) by (fastforce simp add: writeFilesToTarBall_def fileHeader_def)
next
  fix i e
  assume i: "i < length paths"
    and before: "\<forall>j<i. \<exists>fi byt. stat (files w) (paths ! j) = Inr fi \<and> readFile (files w) (paths ! j) = Inr byt"
    and bad: "stat (files w) (paths ! i) = Inl e
              \<or> (\<exists>fi. stat (files w) (paths ! i) = Inr fi \<and> readFile (files w) (paths ! i) = Inl e)"
  from writeFilesLoop_fails [OF assms(2,3) i before bad, of t]
  show "\<exists>tr' w'. writeFilesToTarBall t tr w = Return ((Some e, tr'), w')"
    using assms(1) by (simp add: writeFilesToTarBall_def)
qed

theorem writeFilesToTarBall_entries_witness:
  "getTarContext exStepsTask (files exWorld) = Return ([''app/main.go''], None)
   \<and> (\<exists>tr' w'. writeFilesToTarBall exStepsTask NewWriter exWorld = Return ((None, tr'), w')
         \<and> length (entries tr') = 1
         \<and> entries tr' ! 0 = (\<lparr>Name = ''main.go'', Size = 12, Mode = 420, ModTime = 60,
                AccessTime = 60, ChangeTime = 60\<rparr>, ''package main''))
   \<and> (\<exists>tr' w'. writeFilesToTarBall exStepsTask NewWriter exReadFails =
          Return ((Some (Err ''permission denied''), tr'), w'))"
proof -
  have ctx: "getTarContext exStepsTask (files exWorld) = Return ([''app/main.go''], None)"
    by (simp add: getTarContext_def scanContext_def scanIgnored_def scanRoot2Slice_def
        Walk_def scanCallback_def exStepsTask_def exWorld_def exFiles_def Join_app
        Difference_def)
  have ctx2: "getTarContext exStepsTask (files exReadFails) = Return ([''app/main.go''], None)"
    by (simp add: getTarContext_def scanContext_def scanIgnored_def scanRoot2Slice_def
        Walk_def scanCallback_def exStepsTask_def exReadFails_def exWorld_def exFiles_def
        Join_app Difference_def)
  have fresh: "\<not> closed NewWriter" "nb NewWriter = 0"
    by (simp_all add: NewWriter_def)
  have name: "TrimPrefix ''app/main.go'' (Base (Context (config exStepsTask)) @ ''/'') = ''main.go''"
    by (simp add: TrimPrefix_def HasPrefix_def Base_def exStepsTask_def)
  have st: "stat (files exWorld) ''app/main.go'' = Inr \<lparr>IsDir = False, FileMode = 420, FileModTime = 50\<rparr>"
    "readFile (files exWorld) ''app/main.go'' = Inr ''package main''"
    "stat (files exReadFails) ''app/main.go'' = Inr \<lparr>IsDir = False, FileMode = 420, FileModTime = 50\<rparr>"
    "readFile (files exReadFails) ''app/main.go'' = Inl (Err ''permission denied'')"
    by (simp_all add: exWorld_def exReadFails_def exFiles_def)
  have ck: "clock exWorld (ticks exWorld) = 60" "entries NewWriter = []"
    by (simp_all add: exWorld_def NewWriter_def)
  from writeFilesToTarBall_entries [OF ctx fresh]
  have a: "\<exists>tr' w'. writeFilesToTarBall exStepsTask NewWriter exWorld = Return ((None, tr'), w')
         \<and> length (entries tr') = 1
         \<and> entries tr' ! 0 = (\<lparr>Name = ''main.go'', Size = 12, Mode = 420, ModTime = 60,
                AccessTime = 60, ChangeTime = 60\<rparr>, ''package main'')"
    using st name ck by fastforce
  from writeFilesToTarBall_entries [OF ctx2 fresh]
  have b: "\<exists>tr' w'. writeFilesToTarBall exStepsTask NewWriter exReadFails =
          Return ((Some (Err ''permission denied''), tr'), w')"
    using st by fastforce
  show ?thesis using ctx a b by blast
qed

subsection \<open>The dispatch of the build\<close>

lemma updateImageRecord_events:
  "events (snd (updateImageRecord rec w)) = events w @ [CallUpdateImageRecord (ImageID rec)]"
  by (simp add: updateImageRecord_def emit_def Now_def Let_def split: list.splits option.splits)

lemma writeFilesLoop_config:
  assumes "Context (config t') = Context (config t)"
  shows "writeFilesLoop t' paths tr w = writeFilesLoop t paths tr w"
  using assms
  by (induction paths arbitrary: tr w)
     (simp_all add: Let_def split: sum.splits prod.splits option.splits)

lemma getTarContext_config:
  assumes "Context (config t') = Context (config t)"
  shows "getTarContext t' fsys = getTarContext t fsys"
  unfolding getTarContext_def scanContext_def scanIgnored_def assms ..

lemma writeFilesToTarBall_config:
  assumes "Context (config t') = Context (config t)"
  shows "writeFilesToTarBall t' tr w = writeFilesToTarBall t tr w"
  unfolding writeFilesToTarBall_def getTarContext_config [OF assms] writeFilesLoop_config [OF assms] ..

lemma writeDockerfiletoTarBall_config:
  assumes "Steps (config t') = Steps (config t)"
  shows "writeDockerfiletoTarBall t' tr w = writeDockerfiletoTarBall t tr w"
  by (simp add: writeDockerfiletoTarBall_def assms)

lemma writeTarball_config:
  assumes "Context (config t') = Context (config t)" and "Steps (config t') = Steps (config t)"
  shows "writeTarball t' w = writeTarball t w"
  unfolding writeTarball_def
  by (simp only: writeFilesToTarBall_config [OF assms(1)] writeDockerfiletoTarBall_config [OF assms(2)])

lemma writeFilesLoop_prefix:
  assumes "\<not> closed tr" "nb tr = 0"
  shows "\<exists>more. entries (snd (fst (writeFilesLoop t paths tr w))) = entries tr @ more"
  using assms
proof (induction paths arbitrary: tr w)
  case Nil
  then show ?case by simp
next
  case (Cons p paths)
  show ?case
  proof (cases "stat (files w) p")
    case (Inl err)
    then show ?thesis by (simp add: Let_def emit_def)
  next
    case (Inr fi)
    note st = this
    show ?thesis
    proof (cases "readFile (files w) p")
      case (Inl err)
      then show ?thesis using st by (simp add: Let_def emit_def)
    next
      case (Inr byt)
      define tr2 where "tr2 = tr\<lparr>entries := entries tr @ [(fileHeader t p fi byt (clock w (ticks w)), byt)], nb := 0\<rparr>"
      have p2: "\<not> closed tr2" "nb tr2 = 0" using Cons.prems(1) by (simp_all add: tr2_def)
      from Cons.IH [OF p2] writeFilesLoop_step [OF Cons.prems st Inr, of t paths]
      show ?thesis by (fastforce simp add: tr2_def)
    qed
  qed
qed

lemma writeTarball_first_entry:
  assumes "writeTarball t w = Return ((ar, None), w')"
  shows "\<exists>h more. entries ar = (h, Steps (config t)) # more \<and> Name h = ''Dockerfile''"
proof -
  define h where "h = \<lparr>Name = ''Dockerfile'', Size = int (length (Steps (config t))), Mode = 0,
     ModTime = clock w (ticks w), AccessTime = clock w (ticks w), ChangeTime = clock w (ticks w)\<rparr>"
  define tr1 where "tr1 = \<lparr>entries = [(h, Steps (config t))], nb = 0, closed = False\<rparr>"
  define w1 where "w1 = w\<lparr>ticks := Suc (ticks w)\<rparr>"
  have d: "writeDockerfiletoTarBall t NewWriter w = ((None, tr1), w1)"
    by (simp add: writeDockerfiletoTarBall_def Now_def Let_def WriteHeader_def Write_def
        NewWriter_def h_def tr1_def w1_def)
  have p1: "\<not> closed tr1" "nb tr1 = 0" by (simp_all add: tr1_def)
  show ?thesis
  proof (cases "getTarContext t (files w1)")
    case Panic
    then show ?thesis using assms d by (simp add: writeTarball_def writeFilesToTarBall_def)
  next
    case (Return g)
    obtain paths ge where g: "g = (paths, ge)" by (cases g)
    show ?thesis
    proof (cases ge)
      case (Some err)
      then show ?thesis using assms d Return g
        by (simp add: writeTarball_def writeFilesToTarBall_def)
    next
      case None
      obtain e2 tr2 w2 where l: "writeFilesLoop t paths tr1 w1 = ((e2, tr2), w2)"
        by (cases "writeFilesLoop t paths tr1 w1") auto
      from writeFilesLoop_prefix [OF p1, of t paths w1] l
      obtain more where "entries tr2 = entries tr1 @ more" by auto
      moreover have "ar = Close tr2" using assms d Return g None l
        by (simp add: writeTarball_def writeFilesToTarBall_def)
      ultimately show ?thesis by (simp add: Close_def tr1_def h_def)
    qed
  qed
qed

lemma StreamBuildImage_requests:
  "requestsOf (events (snd (StreamBuildImage opts w))) = requestsOf (events w) @ [opts]"
  by (simp add: StreamBuildImage_def emit_def requestsOf_append split: prod.splits)

text \<open>After the engine's build, the lookup and the record write add no build request.\<close>

lemma buildImage_tail_requests:
  assumes "(case r of
        (Some err, w1) \<Rightarrow> Return (Some err, w1)
      | (None, w1) \<Rightarrow>
          (case GetImage ctx (config t) w1 of
             (Inl err, w2) \<Rightarrow> Return (Some err, w2)
           | (Inr img, w2) \<Rightarrow>
               Return (updateImageRecord \<lparr>ImageID = ID img, Info = None\<rparr> w2))) = Return (err, w')"
  shows "requestsOf (events w') = requestsOf (events (snd r))"
proof -
  obtain e1 w1 where r: "r = (e1, w1)" by (cases r)
  show ?thesis
  proof (cases e1)
    case (Some x)
    then show ?thesis using assms r by simp
  next
    case None
    note n = this
    show ?thesis
    proof (cases "engineImage w1")
      case (Inl x)
      then show ?thesis using assms r n
        by (auto simp add: GetImage_def emit_def requestsOf_append)
    next
      case (Inr img)
      then have "w' = snd (updateImageRecord \<lparr>ImageID = ID img, Info = None\<rparr> (emit CallGetImage w1))"
        using assms r n by (auto simp add: GetImage_def)
      then show ?thesis using r
        by (simp add: updateImageRecord_events requestsOf_append emit_def)
    qed
  qed
qed

lemma buildImage_tail_returns:
  "\<exists>err w'. (case r of
        (Some err, w1) \<Rightarrow> Return (Some err, w1)
      | (None, w1) \<Rightarrow>
          (case GetImage ctx (config t) w1 of
             (Inl err, w2) \<Rightarrow> Return (Some err, w2)
           | (Inr img, w2) \<Rightarrow>
               Return (updateImageRecord \<lparr>ImageID = ID img, Info = None\<rparr> w2))) = Return (err, w')"
  by (auto split: prod.splits option.splits sum.splits)

text \<open>
  C10. \<open>buildImage\<close> never checks that exactly one of the Dockerfile path and the
  inline steps is set. With empty steps it always asks the engine for one build from
  the Dockerfile path and the context directory, whatever the path is (also when it is
  empty). With non-empty steps the Dockerfile path has no effect on the run, and the
  engine is asked for one build from the packed archive, whose first entry is the
  \<open>Dockerfile\<close> holding the steps (or for none, when packing failed).
\<close>

theorem buildImage_dispatch:
  "(Steps (config t) = [] \<longrightarrow>
      (\<exists>err w'. buildImage ctx t w = Return (err, w') \<and>
         requestsOf (events w') = requestsOf (events w) @
           [(commonBuildImageOptions ctx t)
              \<lparr>BuildDockerfile := Dockerfile (config t), ContextDir := Context (config t)\<rparr>]))
   \<and> (Steps (config t) \<noteq> [] \<longrightarrow>
        buildImage ctx (t\<lparr>config := (config t)\<lparr>Dockerfile := d\<rparr>\<rparr>) w = buildImage ctx t w
        \<and> (\<forall>err w'. buildImage ctx t w = Return (err, w') \<longrightarrow>
            (\<exists>ar perr w1. writeTarball t w = Return ((ar, perr), w1) \<and>
               requestsOf (events w') = requestsOf (events w) @
                 (case perr of
                    None \<Rightarrow> [(commonBuildImageOptions ctx t)\<lparr>InputStream := Some ar\<rparr>]
                  | Some e \<Rightarrow> []) \<and>
               (perr = None \<longrightarrow>
                  (\<exists>h more. entries ar = (h, Steps (config t)) # more \<and> Name h = ''Dockerfile'')))))"
proof (intro conjI impI allI)
  assume empty: "Steps (config t) = []"
  define opts where "opts = (commonBuildImageOptions ctx t)
              \<lparr>BuildDockerfile := Dockerfile (config t), ContextDir := Context (config t)\<rparr>"
  define r where "r = StreamBuildImage opts w"
  have b: "buildImage ctx t w = (case r of
        (Some err, w1) \<Rightarrow> Return (Some err, w1)
      | (None, w1) \<Rightarrow>
          (case GetImage ctx (config t) w1 of
             (Inl err, w2) \<Rightarrow> Return (Some err, w2)
           | (Inr img, w2) \<Rightarrow>
               Return (updateImageRecord \<lparr>ImageID = ID img, Info = None\<rparr> w2)))"
    using empty by (simp add: buildImage_def buildImageFromDockerfile_def r_def opts_def)
  from buildImage_tail_returns [where r = r and ctx = ctx and t = t] obtain err w' where
    ret: "buildImage ctx t w = Return (err, w')" unfolding b by blast
  have "requestsOf (events w') = requestsOf (events (snd r))"
    using buildImage_tail_requests [where r = r and ctx = ctx and t = t and err = err and w' = w'] ret b by simp
  then have "requestsOf (events w') = requestsOf (events w) @ [opts]"
    by (simp add: r_def StreamBuildImage_requests)
  then show "\<exists>err w'. buildImage ctx t w = Return (err, w') \<and>
         requestsOf (events w') = requestsOf (events w) @
           [(commonBuildImageOptions ctx t)
              \<lparr>BuildDockerfile := Dockerfile (config t), ContextDir := Context (config t)\<rparr>]"
    using ret unfolding opts_def by blast
next
  assume steps: "Steps (config t) \<noteq> []"
  define t' where "t' = t\<lparr>config := (config t)\<lparr>Dockerfile := d\<rparr>\<rparr>"
  have same: "Context (config t') = Context (config t)" "Steps (config t') = Steps (config t)"
    "commonBuildImageOptions ctx t' = commonBuildImageOptions ctx t"
    by (simp_all add: t'_def commonBuildImageOptions_def)
  have "buildImageFromSteps ctx t' w = buildImageFromSteps ctx t w"
    unfolding buildImageFromSteps_def writeTarball_config [OF same(1,2)] same(3) ..
  then have "buildImage ctx t' w = buildImage ctx t w"
    unfolding buildImage_def GetImage_def same(2) using steps by simp
  then show "buildImage ctx (t\<lparr>config := (config t)\<lparr>Dockerfile := d\<rparr>\<rparr>) w = buildImage ctx t w"
    by (simp add: t'_def)
next
  fix err w'
  assume steps: "Steps (config t) \<noteq> []" and ret: "buildImage ctx t w = Return (err, w')"
  show "\<exists>ar perr w1. writeTarball t w = Return ((ar, perr), w1) \<and>
               requestsOf (events w') = requestsOf (events w) @
                 (case perr of
                    None \<Rightarrow> [(commonBuildImageOptions ctx t)\<lparr>InputStream := Some ar\<rparr>]
                  | Some e \<Rightarrow> []) \<and>
               (perr = None \<longrightarrow>
                  (\<exists>h more. entries ar = (h, Steps (config t)) # more \<and> Name h = ''Dockerfile''))"
  proof (cases "writeTarball t w")
    case Panic
    then show ?thesis using steps ret by (simp add: buildImage_def buildImageFromSteps_def)
  next
    case (Return x)
    obtain ar perr w1 where x: "x = ((ar, perr), w1)" by (cases x) auto
    from writeTarball_world [of t w "(ar, perr)" w1] Return x obtain k evs where
      w1: "w1 = w\<lparr>ticks := ticks w + k, events := events w @ evs\<rparr>" "requestsOf evs = []"
      by auto
    have q1: "requestsOf (events w1) = requestsOf (events w)"
      using w1 by (simp add: requestsOf_append)
    show ?thesis
    proof (cases perr)
      case (Some e)
      then have "w' = w1" using steps ret Return x
        by (simp add: buildImage_def buildImageFromSteps_def)
      then show ?thesis using Return x Some q1 by simp
    next
      case None
      define opts where "opts = (commonBuildImageOptions ctx t)\<lparr>InputStream := Some ar\<rparr>"
      define r where "r = StreamBuildImage opts w1"
      have b: "buildImage ctx t w = (case r of
            (Some err, w1) \<Rightarrow> Return (Some err, w1)
          | (None, w1) \<Rightarrow>
              (case GetImage ctx (config t) w1 of
                 (Inl err, w2) \<Rightarrow> Return (Some err, w2)
               | (Inr img, w2) \<Rightarrow>
                   Return (updateImageRecord \<lparr>ImageID = ID img, Info = None\<rparr> w2)))"
        using steps Return x None
        by (simp add: buildImage_def buildImageFromSteps_def r_def opts_def)
      have "requestsOf (events w') = requestsOf (events (snd r))"
        using buildImage_tail_requests [where r = r and ctx = ctx and t = t and err = err and w' = w'] ret b by simp
      then have q: "requestsOf (events w') = requestsOf (events w) @ [opts]"
        by (simp add: r_def StreamBuildImage_requests q1)
      from writeTarball_first_entry [of t w ar w1] Return x None
      have "\<exists>h more. entries ar = (h, Steps (config t)) # more \<and> Name h = ''Dockerfile''"
        by simp
      then show ?thesis using Return x None q unfolding opts_def by simp
    qed
  qed
qed

theorem buildImage_dispatch_witness:
  "(\<exists>err w'. buildImage exCtx exNeither exFresh = Return (err, w') \<and>
      requestsOf (events w') =
        [\<lparr>BuildName = ''example/app'', BuildArgs = [], Pull = False, RmTmpContainer = True,
          RawJSONStream = True, SuppressOutput = False, BuildDockerfile = [],
          ContextDir = ''app'', InputStream = None\<rparr>])
   \<and> buildImage exCtx (exStepsTask\<lparr>config := (config exStepsTask)\<lparr>Dockerfile := ''other''\<rparr>\<rparr>) exFresh
       = buildImage exCtx exStepsTask exFresh
   \<and> (\<exists>err w' ar. buildImage exCtx exStepsTask exFresh = Return (err, w') \<and>
         requestsOf (events w') =
           [\<lparr>BuildName = ''example/app'', BuildArgs = [], Pull = False, RmTmpContainer = True,
             RawJSONStream = True, SuppressOutput = False, BuildDockerfile = [],
             ContextDir = [], InputStream = Some ar\<rparr>])"
proof -
  have n: "Steps (config exNeither) = []" "requestsOf (events exFresh) = []"
    "commonBuildImageOptions exCtx exNeither\<lparr>BuildDockerfile := Dockerfile (config exNeither),
        ContextDir := Context (config exNeither)\<rparr> =
      \<lparr>BuildName = ''example/app'', BuildArgs = [], Pull = False, RmTmpContainer = True,
          RawJSONStream = True, SuppressOutput = False, BuildDockerfile = [],
          ContextDir = ''app'', InputStream = None\<rparr>"
    by (simp_all add: exNeither_def exFresh_def exWorld_def commonBuildImageOptions_def
        exCtx_def buildArgs_def)
  have a: "\<exists>err w'. buildImage exCtx exNeither exFresh = Return (err, w') \<and>
      requestsOf (events w') =
        [\<lparr>BuildName = ''example/app'', BuildArgs = [], Pull = False, RmTmpContainer = True,
          RawJSONStream = True, SuppressOutput = False, BuildDockerfile = [],
          ContextDir = ''app'', InputStream = None\<rparr>]"
    using buildImage_dispatch [of exNeither exCtx exFresh] n by simp
  note s = buildImage_dispatch [of exStepsTask exCtx exFresh "''other''"]
  have m: "Steps (config exStepsTask) \<noteq> []"
    "\<And>ar. commonBuildImageOptions exCtx exStepsTask\<lparr>InputStream := Some ar\<rparr> =
      \<lparr>BuildName = ''example/app'', BuildArgs = [], Pull = False, RmTmpContainer = True,
          RawJSONStream = True, SuppressOutput = False, BuildDockerfile = [],
          ContextDir = [], InputStream = Some ar\<rparr>"
    by (simp_all add: exStepsTask_def commonBuildImageOptions_def exCtx_def buildArgs_def)
  have b: "buildImage exCtx (exStepsTask\<lparr>config := (config exStepsTask)\<lparr>Dockerfile := ''other''\<rparr>\<rparr>) exFresh
       = buildImage exCtx exStepsTask exFresh"
    using s m(1) by blast
  have ctx: "getTarContext exStepsTask (files exFresh) = Return ([''app/main.go''], None)"
    by (simp add: getTarContext_def scanContext_def scanIgnored_def scanRoot2Slice_def
        Walk_def scanCallback_def exStepsTask_def exFresh_def exWorld_def exFiles_def Join_app
        Difference_def)
  have pack: "\<exists>ar w1. writeTarball exStepsTask exFresh = Return ((ar, None), w1)"
    using ctx
    by (simp add: writeTarball_def writeDockerfiletoTarBall_def writeFilesToTarBall_def Now_def
        WriteHeader_def Write_def NewWriter_def Let_def emit_def exFresh_def exWorld_def
        exFiles_def)
  then obtain ar0 w0 where pack0: "writeTarball exStepsTask exFresh = Return ((ar0, None), w0)"
    by blast
  have ret: "\<exists>err w'. buildImage exCtx exStepsTask exFresh = Return (err, w')"
    using m(1) pack0 buildImage_tail_returns
      [where r = "StreamBuildImage ((commonBuildImageOptions exCtx exStepsTask)\<lparr>InputStream := Some ar0\<rparr>) w0"
        and ctx = exCtx and t = exStepsTask]
    by (simp add: buildImage_def buildImageFromSteps_def)
  then obtain err w' where ret0: "buildImage exCtx exStepsTask exFresh = Return (err, w')"
    by blast
  from s m(1) ret0 obtain ar perr w1 where
    "writeTarball exStepsTask exFresh = Return ((ar, perr), w1)"
    "requestsOf (events w') = requestsOf (events exFresh) @
       (case perr of None \<Rightarrow> [(commonBuildImageOptions exCtx exStepsTask)\<lparr>InputStream := Some ar\<rparr>]
        | Some e \<Rightarrow> [])"
    by blast
  then have "requestsOf (events w') =
           [\<lparr>BuildName = ''example/app'', BuildArgs = [], Pull = False, RmTmpContainer = True,
             RawJSONStream = True, SuppressOutput = False, BuildDockerfile = [],
             ContextDir = [], InputStream = Some ar\<rparr>]"
    using pack0 n(2) m(2) by simp
  then have c: "\<exists>err w' ar. buildImage exCtx exStepsTask exFresh = Return (err, w') \<and>
         requestsOf (events w') =
           [\<lparr>BuildName = ''example/app'', BuildArgs = [], Pull = False, RmTmpContainer = True,
             RawJSONStream = True, SuppressOutput = False, BuildDockerfile = [],
             ContextDir = [], InputStream = Some ar\<rparr>]"
    using ret0 by blast
  show ?thesis using a b c by blast
qed

subsection \<open>Two runs in a row\<close>

lemma updateImageRecord_effect:
  assumes "updateImageRecord rec w = (r, w')"
  shows "files w' = files w \<and> clock w' = clock w \<and> engineImage w' = engineImage w
     \<and> (case r of None \<Rightarrow> recordFile w' = Inr (ImageID rec, clock w (ticks w))
                  | Some e \<Rightarrow> recordFile w' = recordFile w)"
proof (cases "writeFaults w")
  case Nil
  then show ?thesis using assms
    by (auto simp add: updateImageRecord_def emit_def Now_def Let_def)
next
  case (Cons f rest)
  then show ?thesis using assms
    by (cases f) (auto simp add: updateImageRecord_def emit_def Now_def Let_def)
qed

lemma StreamBuildImage_effect:
  "files (snd (StreamBuildImage opts w)) = files w \<and> clock (snd (StreamBuildImage opts w)) = clock w"
  by (simp add: StreamBuildImage_def emit_def split: prod.splits)

lemma buildImage_tail_effect:
  assumes "(case r of
        (Some err, w1) \<Rightarrow> Return (Some err, w1)
      | (None, w1) \<Rightarrow>
          (case GetImage ctx (config t) w1 of
             (Inl err, w2) \<Rightarrow> Return (Some err, w2)
           | (Inr img, w2) \<Rightarrow>
               Return (updateImageRecord \<lparr>ImageID = ID img, Info = None\<rparr> w2))) = Return (None, w')"
  shows "files w' = files (snd r) \<and> clock w' = clock (snd r)
     \<and> (\<exists>img k. engineImage w' = Inr img \<and> recordFile w' = Inr (ID img, clock (snd r) k))"
proof -
  obtain e1 w1 where r: "r = (e1, w1)" by (cases r)
  show ?thesis
  proof (cases e1)
    case (Some x)
    then show ?thesis using assms r by simp
  next
    case None
    note n = this
    show ?thesis
    proof (cases "engineImage w1")
      case (Inl x)
      then show ?thesis using assms r n by (simp add: GetImage_def)
    next
      case (Inr img)
      then have u: "updateImageRecord \<lparr>ImageID = ID img, Info = None\<rparr> (emit CallGetImage w1) = (None, w')"
        using assms r n by (simp add: GetImage_def)
      from updateImageRecord_effect [OF u] Inr
      have "files w' = files w1 \<and> clock w' = clock w1 \<and> engineImage w' = Inr img
        \<and> recordFile w' = Inr (ID img, clock w1 (ticks w1))"
        by (simp add: emit_def)
      then show ?thesis using r by auto
    qed
  qed
qed

lemma buildImage_effect:
  assumes "buildImage ctx t w = Return (None, w')"
  shows "files w' = files w \<and> clock w' = clock w
     \<and> (\<exists>img k. engineImage w' = Inr img \<and> recordFile w' = Inr (ID img, clock w k))"
proof (cases "Steps (config t) = []")
  case True
  define r where "r = buildImageFromDockerfile ctx t w"
  have "files (snd r) = files w \<and> clock (snd r) = clock w"
    by (simp add: r_def buildImageFromDockerfile_def StreamBuildImage_effect)
  moreover have "(case r of
        (Some err, w1) \<Rightarrow> Return (Some err, w1)
      | (None, w1) \<Rightarrow>
          (case GetImage ctx (config t) w1 of
             (Inl err, w2) \<Rightarrow> Return (Some err, w2)
           | (Inr img, w2) \<Rightarrow>
               Return (updateImageRecord \<lparr>ImageID = ID img, Info = None\<rparr> w2))) = Return (None, w')"
    using assms True by (simp add: buildImage_def r_def)
  ultimately show ?thesis
    using buildImage_tail_effect [where r = r and ctx = ctx and t = t and w' = w'] by simp
next
  case False
  show ?thesis
  proof (cases "writeTarball t w")
    case Panic
    then show ?thesis using assms False by (simp add: buildImage_def buildImageFromSteps_def)
  next
    case (Return x)
    obtain ar perr w0 where x: "x = ((ar, perr), w0)" by (cases x) auto
    from writeTarball_world [of t w "(ar, perr)" w0] Return x obtain k evs where
      "w0 = w\<lparr>ticks := ticks w + k, events := events w @ evs\<rparr>" by auto
    then have w0: "files w0 = files w" "clock w0 = clock w" by simp_all
    show ?thesis
    proof (cases perr)
      case (Some e)
      then show ?thesis using assms False Return x
        by (simp add: buildImage_def buildImageFromSteps_def)
    next
      case None
      define r where "r = StreamBuildImage ((commonBuildImageOptions ctx t)\<lparr>InputStream := Some ar\<rparr>) w0"
      have "files (snd r) = files w \<and> clock (snd r) = clock w"
        by (simp add: r_def StreamBuildImage_effect w0)
      moreover have "(case r of
            (Some err, w1) \<Rightarrow> Return (Some err, w1)
          | (None, w1) \<Rightarrow>
              (case GetImage ctx (config t) w1 of
                 (Inl err, w2) \<Rightarrow> Return (Some err, w2)
               | (Inr img, w2) \<Rightarrow>
                   Return (updateImageRecord \<lparr>ImageID = ID img, Info = None\<rparr> w2))) = Return (None, w')"
        using assms False Return x None by (simp add: buildImage_def buildImageFromSteps_def r_def)
      ultimately show ?thesis
        using buildImage_tail_effect [where r = r and ctx = ctx and t = t and w' = w'] by simp
    qed
  qed
qed

lemma buildIsStale_world:
  assumes "buildIsStale ctx t w = Return (r, w')"
  shows "\<exists>evs. w' = w\<lparr>events := events w @ evs\<rparr>"
proof -
  show ?thesis
    using assms
    by (auto simp add: buildIsStale_def GetImage_def LastModified_def getImageRecord_def
        emit_def Let_def split: sum.splits if_splits option.splits prod.splits)
qed

lemma RunBuild_effect:
  assumes "RunBuild ctx t hasModifiedDeps w = Return ((True, None), w')"
  shows "files w' = files w \<and> clock w' = clock w
     \<and> (\<exists>img k. engineImage w' = Inr img \<and> recordFile w' = Inr (ID img, clock w k))"
proof -
  define pre where "pre = (if hasModifiedDeps then Return (Inr (), w)
            else (case buildIsStale ctx t w of
                    Panic \<Rightarrow> Panic
                  | Return ((stale, Some err), w1) \<Rightarrow> Return (Inl (False, Some err), w1)
                  | Return ((stale, None), w1) \<Rightarrow>
                      (if stale then Return (Inr (), w1)
                       else Return (Inl (False, None), emit (LogInfo ''is fresh'') w1))))"
  have run: "RunBuild ctx t hasModifiedDeps w =
     (case pre of
        Panic \<Rightarrow> Panic
      | Return (Inl result, w1) \<Rightarrow> Return (result, w1)
      | Return (Inr u, w1) \<Rightarrow>
          (case buildImage ctx t (emit (LogDebug ''is stale'') w1) of
             Panic \<Rightarrow> Panic
           | Return (Some err, w2) \<Rightarrow> Return ((False, Some err), w2)
           | Return (None, w2) \<Rightarrow>
               (case GetImage ctx (config t) w2 of
                  (Inl err, w3) \<Rightarrow> Return ((False, Some err), w3)
                | (Inr img, w3) \<Rightarrow>
                    (case updateImageRecord \<lparr>ImageID = ID img, Info = None\<rparr> w3 of
                       (Some err, w4) \<Rightarrow>
                         Return ((True, None),
                           emit (LogInfo ''Created'')
                             (emit (LogWarn (''Failed to update image record: '' @ errorString err)) w4))
                     | (None, w4) \<Rightarrow> Return ((True, None), emit (LogInfo ''Created'') w4)))))"
    unfolding RunBuild_def pre_def ..
  have pre_cases: "pre = Panic \<or> (\<exists>e w1. pre = Return (Inl (False, e), w1))
      \<or> (\<exists>evs. pre = Return (Inr (), w\<lparr>events := events w @ evs\<rparr>))"
  proof (cases hasModifiedDeps)
    case True
    then have "pre = Return (Inr (), w\<lparr>events := events w @ []\<rparr>)" by (simp add: pre_def)
    then show ?thesis by blast
  next
    case False
    show ?thesis
    proof (cases "buildIsStale ctx t w")
      case Panic
      then show ?thesis using False by (simp add: pre_def)
    next
      case (Return x)
      obtain stale e w1 where x: "x = ((stale, e), w1)" by (cases x) auto
      from buildIsStale_world [of ctx t w "(stale, e)" w1] Return x
      obtain evs where "w1 = w\<lparr>events := events w @ evs\<rparr>" by auto
      then show ?thesis using False Return x
        by (cases e; cases stale) (auto simp add: pre_def)
    qed
  qed
  from pre_cases assms run obtain evs where pre: "pre = Return (Inr (), w\<lparr>events := events w @ evs\<rparr>)"
    by auto
  define wb where "wb = emit (LogDebug ''is stale'') (w\<lparr>events := events w @ evs\<rparr>)"
  have wb: "files wb = files w" "clock wb = clock w" by (simp_all add: wb_def emit_def)
  have run2: "(case buildImage ctx t wb of
             Panic \<Rightarrow> Panic
           | Return (Some err, w2) \<Rightarrow> Return ((False, Some err), w2)
           | Return (None, w2) \<Rightarrow>
               (case GetImage ctx (config t) w2 of
                  (Inl err, w3) \<Rightarrow> Return ((False, Some err), w3)
                | (Inr img, w3) \<Rightarrow>
                    (case updateImageRecord \<lparr>ImageID = ID img, Info = None\<rparr> w3 of
                       (Some err, w4) \<Rightarrow>
                         Return ((True, None),
                           emit (LogInfo ''Created'')
                             (emit (LogWarn (''Failed to update image record: '' @ errorString err)) w4))
                     | (None, w4) \<Rightarrow> Return ((True, None), emit (LogInfo ''Created'') w4))))
         = Return ((True, None), w')"
    using assms run pre by (simp add: wb_def)
  then obtain w2 where b: "buildImage ctx t wb = Return (None, w2)"
    by (cases "buildImage ctx t wb") (auto split: option.splits)
  from buildImage_effect [OF b] wb obtain img k where
    w2: "files w2 = files w" "clock w2 = clock w" "engineImage w2 = Inr img"
      "recordFile w2 = Inr (ID img, clock w k)" by auto
  define w3 where "w3 = emit CallGetImage w2"
  have w3: "files w3 = files w" "clock w3 = clock w" "engineImage w3 = Inr img"
      "recordFile w3 = Inr (ID img, clock w k)" using w2 by (simp_all add: w3_def emit_def)
  obtain r w4 where u: "updateImageRecord \<lparr>ImageID = ID img, Info = None\<rparr> w3 = (r, w4)"
    by (cases "updateImageRecord \<lparr>ImageID = ID img, Info = None\<rparr> w3")
  from updateImageRecord_effect [OF u] w3
  have w4: "files w4 = files w" "clock w4 = clock w" "engineImage w4 = Inr img"
    "\<exists>k. recordFile w4 = Inr (ID img, clock w k)"
    by (cases r; auto)+
  have "w' = emit (LogInfo ''Created'') w4
        \<or> (\<exists>err. w' = emit (LogInfo ''Created'')
                 (emit (LogWarn (''Failed to update image record: '' @ errorString err)) w4))"
    using run2 b w2(3) u by (cases r) (auto simp add: GetImage_def w3_def)
  then show ?thesis using w4 by (auto simp add: emit_def)
qed

text \<open>
  The code's own downgrade, for comparison with C1: when the write inside
  \<open>buildImage\<close> succeeds and only the second write, in \<open>RunBuild\<close>, fails, the run
  warns and reports a successful build.
\<close>

lemma RunBuild_second_write_failure_warns:
  "\<exists>w'. RunBuild exCtx exTask False exSecondWriteFails = Return ((True, None), w')
         \<and> LogWarn ''Failed to update image record: permission denied'' \<in> set (events w')"
  by (simp add: RunBuild_def buildIsStale_def buildImage_def buildImageFromDockerfile_def
      StreamBuildImage_def GetImage_def updateImageRecord_def emit_def Now_def
      exSecondWriteFails_def exFresh_def exWorld_def exTask_def Let_def)

text \<open>
  C5 as stated fails. Nothing is built yet, the first run builds the image and writes
  the record (at instant 61), nothing in the file system changes, and the second check
  is stale again: the context's modification time (100) is ahead of the clock, so the
  record file is older than the context.
\<close>

theorem RunBuild_twice_future_context:
  "engineImage exLate = Inl ErrNoSuchImage
   \<and> recordFile exLate = Inl (Err ''open .dobi/images/app: no such file or directory'')
   \<and> verdict (buildIsStale exCtx exTask exLate) = Some (True, None)
   \<and> (case RunBuild exCtx exTask False exLate of
          Panic \<Rightarrow> None
        | Return (result, w1) \<Rightarrow>
            Some (result, files w1 = files exLate, recordFile w1,
                  verdict (buildIsStale exCtx exTask w1)))
       = Some ((True, None), True, Inr (''sha256:new'', 61), Some (True, None))"
  by (simp add: verdict_def RunBuild_def buildIsStale_def buildImage_def
      buildImageFromDockerfile_def StreamBuildImage_def GetImage_def LastModified_def
      getImageRecord_def updateImageRecord_def Now_def emit_def Before_def Let_def
      exLate_def exFresh_def exWorld_def exFiles_def exTask_def exImage_def)

text \<open>
  C5, amended. Start with no image and no record, let the first run build the image
  (which includes the write of the record in \<open>buildImage\<close>), and let the context's
  modification time be computable and not after the modification time of the record
  file the run leaves. Then the check is stale before the first run, the run leaves the
  file system as it was and a record of the image it built, the check after it is
  fresh, and a second run builds nothing.
\<close>

theorem RunBuild_twice:
  assumes "engineImage w = Inl ErrNoSuchImage"
    and "recordFile w = Inl e0"
    and "RunBuild ctx t False w = Return ((True, None), w1)"
    and "lastModified (files w) (Context (config t)) = Inr mtime"
    and "\<forall>rid rtime. recordFile w1 = Inr (rid, rtime) \<longrightarrow> mtime \<le> rtime"
  shows "(\<exists>wa. buildIsStale ctx t w = Return ((True, None), wa))
     \<and> files w1 = files w
     \<and> (\<exists>img rtime. engineImage w1 = Inr img \<and> recordFile w1 = Inr (ID img, rtime))
     \<and> (\<exists>wb. buildIsStale ctx t w1 = Return ((False, None), wb))
     \<and> (\<exists>w2. RunBuild ctx t False w1 = Return ((False, None), w2))"
proof -
  have first: "\<exists>wa. buildIsStale ctx t w = Return ((True, None), wa)"
    using assms(1) by (simp add: buildIsStale_def GetImage_def)
  from RunBuild_effect [OF assms(3)] obtain img k where
    w1: "files w1 = files w" "engineImage w1 = Inr img" "recordFile w1 = Inr (ID img, clock w k)"
    by auto
  have "\<not> clock w k < mtime" using assms(5) w1(3) by (simp add: not_less)
  then have second: "\<exists>wb. buildIsStale ctx t w1 = Return ((False, None), wb)"
    using w1 assms(4)
    by (simp add: buildIsStale_def GetImage_def LastModified_def getImageRecord_def emit_def
        Before_def)
  then have "\<exists>w2. RunBuild ctx t False w1 = Return ((False, None), w2)"
    by (auto simp add: RunBuild_def)
  then show ?thesis using first second w1 by blast
qed

theorem RunBuild_twice_witness:
  "engineImage exFresh = Inl ErrNoSuchImage
   \<and> (\<exists>w1. RunBuild exCtx exTask False exFresh = Return ((True, None), w1)
         \<and> recordFile w1 = Inr (''sha256:new'', 61)
         \<and> (\<exists>wb. buildIsStale exCtx exTask w1 = Return ((False, None), wb))
         \<and> (\<exists>w2. RunBuild exCtx exTask False w1 = Return ((False, None), w2)))"
proof -
  have a: "engineImage exFresh = Inl ErrNoSuchImage"
    "recordFile exFresh = Inl (Err ''open .dobi/images/app: no such file or directory'')"
    "lastModified (files exFresh) (Context (config exTask)) = Inr 50"
    by (simp_all add: exFresh_def exWorld_def exFiles_def exTask_def)
  have "\<exists>w1. RunBuild exCtx exTask False exFresh = Return ((True, None), w1)
          \<and> recordFile w1 = Inr (''sha256:new'', 61)"
    by (simp add: RunBuild_def buildIsStale_def buildImage_def buildImageFromDockerfile_def
      StreamBuildImage_def GetImage_def updateImageRecord_def Now_def emit_def Let_def
      exFresh_def exWorld_def exTask_def exImage_def)
  then obtain w1 where r: "RunBuild exCtx exTask False exFresh = Return ((True, None), w1)"
    and rf: "recordFile w1 = Inr (''sha256:new'', 61)"
    by blast
  have late: "\<forall>rid rtime. recordFile w1 = Inr (rid, rtime) \<longrightarrow> (50::int) \<le> rtime"
    using rf by simp
  from RunBuild_twice [OF a(1,2) r a(3) late] r rf a(1) show ?thesis by blast
qed

end
